theory Spec2Isabelle
  imports Main "HOL-Library.Word" "HOL-Library.AList"
begin

section \<open>Strings\<close>

text \<open>
  A JavaScript string is a sequence of 16-bit code units. String literals of the source
  are written \<open>js ''...''\<close>.
\<close>

type_synonym jschar = "16 word"
type_synonym jsstring = "jschar list"

definition js :: "string \<Rightarrow> jsstring" where
  "js s = map of_char s"

text \<open>
  \<open>String.prototype.trim\<close> removes WhiteSpace and LineTerminator code units from both
  ends: TAB, LF, VT, FF, CR, SPACE, NBSP, the Unicode space separators, LS, PS and the
  byte order mark.
\<close>

definition isWhiteSpace :: "jschar \<Rightarrow> bool" where
  "isWhiteSpace c =
     ((0x9 \<le> c \<and> c \<le> 0xD) \<or> c = 0x20 \<or> c = 0xA0 \<or> c = 0x1680 \<or>
      (0x2000 \<le> c \<and> c \<le> 0x200A) \<or> c = 0x2028 \<or> c = 0x2029 \<or> c = 0x202F \<or>
      c = 0x205F \<or> c = 0x3000 \<or> c = 0xFEFF)"

definition trim :: "jsstring \<Rightarrow> jsstring" where
  "trim s = rev (dropWhile isWhiteSpace (rev (dropWhile isWhiteSpace s)))"

text \<open>\<open>x?.trim() || undefined\<close>: an absent or blank text becomes absent.\<close>

definition trimOrUndefined :: "jsstring option \<Rightarrow> jsstring option" where
  "trimOrUndefined x =
     (case x of None \<Rightarrow> None
      | Some s \<Rightarrow> (if trim s = [] then None else Some (trim s)))"

section \<open>Data model (store.ts)\<close>

record Deck =
  d_id :: jsstring
  title :: jsstring
  description :: "jsstring option"
  createdAt :: jsstring
  updatedAt :: jsstring

record Card =
  c_id :: jsstring
  front :: jsstring
  back' :: jsstring

datatype StudyMode = Ordered | Shuffle

record Settings =
  defaultStudyMode :: StudyMode
  rememberLastDeck :: bool
  reducedMotion :: bool
  lastDeckId :: "jsstring option"

text \<open>
  \<open>cardsByDeck\<close> is an object used as a dictionary. Its own properties are kept as an
  association list in insertion order: \<open>map_of\<close> finds an own property,
  \<open>AList.update\<close> assigns one and \<open>AList.delete\<close> removes one. The special place of
  keys that look like array indices in the enumeration order of an object is not
  modelled.
\<close>

type_synonym CardsByDeck = "(jsstring \<times> Card list) list"

text \<open>
  A read \<open>obj[key]\<close> of a key that is no own property goes on to the prototype of the
  object, \<open>Object.prototype\<close>. Under the names below it finds a member of the prototype:
  a function, or for "__proto__" the prototype itself. Such a value is neither
  \<open>undefined\<close> nor \<open>null\<close>, it is truthy, and it has none of the methods of an
  array. Under every other name the read yields \<open>undefined\<close>.
\<close>

definition objectPrototypeNames :: "jsstring list" where
  "objectPrototypeNames =
     [js ''constructor'', js ''__defineGetter__'', js ''__defineSetter__'',
      js ''hasOwnProperty'', js ''__lookupGetter__'', js ''__lookupSetter__'',
      js ''isPrototypeOf'', js ''propertyIsEnumerable'', js ''toString'', js ''valueOf'',
      js ''__proto__'', js ''toLocaleString'']"

definition inheritedMember :: "jsstring \<Rightarrow> bool" where
  "inheritedMember k = (k \<in> set objectPrototypeNames)"

text \<open>
  An assignment \<open>obj[key] = cards\<close> creates or replaces an own property. The one
  exception is the key "__proto__" on an object without such an own property: there
  the assignment makes the array the prototype of the object, where the read
  \<open>obj["__proto__"]\<close> finds it again; and zod does not copy an own property of this
  name into the object it returns. The model treats this key as any other and keeps
  the array as its entry. \<open>generateId\<close> never gives this key: its ids are UUIDs, or at
  most eight digits and lower case letters.
\<close>

record StoreState =
  decks :: "Deck list"
  cardsByDeck :: CardsByDeck
  settings :: Settings

text \<open>
  A property of a \<open>Partial<Settings>\<close> object is missing, present with the value
  \<open>undefined\<close>, or present with a value.
\<close>

datatype 'a property = Absent | Undefined | Value 'a

record PartialSettings =
  p_defaultStudyMode :: "StudyMode property"
  p_rememberLastDeck :: "bool property"
  p_reducedMotion :: "bool property"
  p_lastDeckId :: "jsstring property"

definition defaultSettings :: Settings where
  "defaultSettings =
     \<lparr>defaultStudyMode = Ordered, rememberLastDeck = False, reducedMotion = False,
      lastDeckId = None\<rparr>"

section \<open>Errors and the host\<close>

text \<open>
  The exceptions the code can raise. Each \<open>throw new Error(message)\<close> of the source has
  its own constructor:
  \<^item> \<open>DeckTitleRequired\<close>: "Deck title is required" (createDeck);
  \<^item> \<open>DeckTitleEmpty\<close>: "Deck title cannot be empty" (updateDeck);
  \<^item> \<open>DeckNotFound d\<close>: "Deck d not found";
  \<^item> \<open>CardFieldsRequired\<close>: "Card front and back are required" (addCard);
  \<^item> \<open>CardNotFound c d\<close>: "Card c not found in deck d";
  \<^item> \<open>CardFrontEmpty\<close>, \<open>CardBackEmpty\<close>: "Card front/back cannot be empty" (updateCard);
  \<^item> \<open>EmptyStore\<close>: "Empty store" (hydrateFromStorage);
  \<^item> \<open>CsvColumnsMissing\<close>: "CSV must include 'front' and 'back' columns";
  \<^item> \<open>NoValidCards\<close>: "No cards with valid front/back content were found";
  \<^item> \<open>NoCardsInCsv\<close>: "No cards found in CSV file";
  \<^item> \<open>RangeError\<close>: \<open>toISOString\<close> of an invalid date;
  \<^item> \<open>TypeError\<close>: the call of an array method on a value that has none;
  \<^item> \<open>SyntaxError\<close>: \<open>JSON.parse\<close> of a text that is not JSON;
  \<^item> \<open>ZodError issues\<close>: a failed \<open>schema.parse\<close>.
\<close>

datatype issue =
    InvalidType
  | TooSmall
  | InvalidEnumValue
  | Custom jsstring

datatype error =
    DeckTitleRequired
  | DeckTitleEmpty
  | DeckNotFound jsstring
  | CardFieldsRequired
  | CardNotFound jsstring jsstring
  | CardFrontEmpty
  | CardBackEmpty
  | EmptyStore
  | CsvColumnsMissing
  | NoValidCards
  | NoCardsInCsv
  | RangeError
  | TypeError
  | SyntaxError
  | ZodError "issue list"

text \<open>
  What the code takes from the JavaScript host: \<open>Date.parse\<close> (\<open>None\<close> is NaN, otherwise
  the time value in milliseconds), \<open>Date.prototype.toISOString\<close> of a valid time value,
  and \<open>String.prototype.localeCompare\<close>.
\<close>

record Host =
  Date_parse :: "jsstring \<Rightarrow> int option"
  toISOString :: "int \<Rightarrow> jsstring"
  localeCompare :: "jsstring \<Rightarrow> jsstring \<Rightarrow> int"

text \<open>
  ECMAScript guarantees that \<open>Date.parse(x.toISOString())\<close> is the time value of \<open>x\<close>
  for every valid date \<open>x\<close> (\<open>roundTrips\<close>), and \<open>Date.parse("")\<close> is NaN.
\<close>

definition roundTrips :: "Host \<Rightarrow> bool" where
  "roundTrips H =
     (\<forall>x t. Date_parse H x = Some t \<longrightarrow> Date_parse H (toISOString H t) = Some t)"

definition host_ok :: "Host \<Rightarrow> bool" where
  "host_ok H = (roundTrips H \<and> Date_parse H [] = None)"

text \<open>\<open>new Date(x).toISOString()\<close>\<close>

definition reserialize :: "Host \<Rightarrow> jsstring \<Rightarrow> error + jsstring" where
  "reserialize H x =
     (case Date_parse H x of None \<Rightarrow> Inl RangeError | Some t \<Rightarrow> Inr (toISOString H t))"

text \<open>\<open>Array.prototype.map\<close> with a callback that may throw: the first error wins.\<close>

fun mapE :: "('a \<Rightarrow> error + 'b) \<Rightarrow> 'a list \<Rightarrow> error + 'b list" where
  "mapE f [] = Inr []"
| "mapE f (x # xs) =
     (case f x of Inl e \<Rightarrow> Inl e
      | Inr y \<Rightarrow> (case mapE f xs of Inl e \<Rightarrow> Inl e | Inr ys \<Rightarrow> Inr (y # ys)))"

section \<open>Normalizer\<close>

text \<open>The spread \<open>{ ...defaults, ...settings }\<close>, one property at a time.\<close>

fun spread :: "'a option \<Rightarrow> 'a property \<Rightarrow> 'a option" where
  "spread d Absent = d"
| "spread d Undefined = None"
| "spread d (Value v) = Some v"

definition emptyPartial :: PartialSettings where
  "emptyPartial =
     \<lparr>p_defaultStudyMode = Absent, p_rememberLastDeck = Absent, p_reducedMotion = Absent,
      p_lastDeckId = Absent\<rparr>"

definition normalizeSettings :: "PartialSettings option \<Rightarrow> Settings" where
  "normalizeSettings settings0 =
     (let s = (case settings0 of None \<Rightarrow> emptyPartial | Some p \<Rightarrow> p);
          m_mode = spread (Some (defaultStudyMode defaultSettings)) (p_defaultStudyMode s);
          m_remember = spread (Some (rememberLastDeck defaultSettings)) (p_rememberLastDeck s);
          m_reduced = spread (Some (reducedMotion defaultSettings)) (p_reducedMotion s);
          m_last = spread (lastDeckId defaultSettings) (p_lastDeckId s);
          mode = (if m_mode = Some Shuffle then Shuffle else Ordered);
          remember = (m_remember = Some True);
          reduced = (m_reduced = Some True);
          last = (if remember then m_last else None)
      in \<lparr>defaultStudyMode = mode, rememberLastDeck = remember, reducedMotion = reduced,
          lastDeckId = last\<rparr>)"

text \<open>A \<open>Settings\<close> object seen as a \<open>Partial<Settings>\<close>.\<close>

definition asPartial :: "Settings \<Rightarrow> PartialSettings" where
  "asPartial s =
     \<lparr>p_defaultStudyMode = Value (defaultStudyMode s),
      p_rememberLastDeck = Value (rememberLastDeck s),
      p_reducedMotion = Value (reducedMotion s),
      p_lastDeckId = (case lastDeckId s of None \<Rightarrow> Undefined | Some d \<Rightarrow> Value d)\<rparr>"

definition normalizeDeck :: "Host \<Rightarrow> Deck \<Rightarrow> error + Deck" where
  "normalizeDeck H deck =
     (case reserialize H (createdAt deck) of
        Inl e \<Rightarrow> Inl e
      | Inr c \<Rightarrow>
          (case reserialize H (updatedAt deck) of
             Inl e \<Rightarrow> Inl e
           | Inr u \<Rightarrow>
               Inr (deck\<lparr>title := trim (title deck),
                         description := trimOrUndefined (description deck),
                         createdAt := c, updatedAt := u\<rparr>)))"

definition normalizeCard :: "Card \<Rightarrow> Card" where
  "normalizeCard c = c\<lparr>front := trim (front c), back' := trim (back' c)\<rparr>"

text \<open>
  \<open>const cards = obj[key] ?? []\<close>, followed by the call of an array method of
  \<open>cards\<close> (\<open>map\<close>, \<open>push\<close>, \<open>find\<close> or \<open>findIndex\<close>): an own entry is an array,
  a missing one is replaced by the empty array, and a member of \<open>Object.prototype\<close> is
  kept by \<open>??\<close>, so that the method call throws a TypeError.
\<close>

definition cardsOf :: "CardsByDeck \<Rightarrow> jsstring \<Rightarrow> error + Card list" where
  "cardsOf cbd k =
     (case map_of cbd k of
        Some cs \<Rightarrow> Inr cs
      | None \<Rightarrow> (if inheritedMember k then Inl TypeError else Inr []))"

text \<open>
  The loop \<open>for (const deck of decks) { const cards = store.cardsByDeck[deck.id] ?? [];
  cardsByDeck[deck.id] = cards.map(...) }\<close>, from the object built so far; it starts
  from an empty object.
\<close>

fun rebuildFrom :: "CardsByDeck \<Rightarrow> Deck list \<Rightarrow> CardsByDeck \<Rightarrow> error + CardsByDeck" where
  "rebuildFrom old [] acc = Inr acc"
| "rebuildFrom old (deck # ds) acc =
     (case cardsOf old (d_id deck) of
        Inl e \<Rightarrow> Inl e
      | Inr cards \<Rightarrow> rebuildFrom old ds (AList.update (d_id deck) (map normalizeCard cards) acc))"

definition rebuildCards :: "CardsByDeck \<Rightarrow> Deck list \<Rightarrow> error + CardsByDeck" where
  "rebuildCards old ds = rebuildFrom old ds []"

definition normalizeStore :: "Host \<Rightarrow> StoreState \<Rightarrow> error + StoreState" where
  "normalizeStore H store =
     (case mapE (normalizeDeck H) (decks store) of
        Inl e \<Rightarrow> Inl e
      | Inr ds \<Rightarrow>
          (case rebuildCards (cardsByDeck store) ds of
             Inl e \<Rightarrow> Inl e
           | Inr cbd \<Rightarrow>
               Inr \<lparr>decks = ds,
                    cardsByDeck = cbd,
                    settings = normalizeSettings (Some (asPartial (settings store)))\<rparr>))"

section \<open>Raw data and the schema validator\<close>

text \<open>
  Untrusted data as \<open>JSON.parse\<close> delivers it. No schema of the program accepts a
  number, so only the tag of a number matters.
\<close>

datatype json =
    JNull
  | JBool bool
  | JNumber int
  | JString jsstring
  | JArray "json list"
  | JObject "(jsstring \<times> json) list"

text \<open>
  The result of running a zod schema: the issues raised, and the value unless the
  parse was aborted. Issues without abort are zod's "dirty" status (a failed
  \<open>min\<close> or \<open>refine\<close>), an \<open>invalid_type\<close> aborts. \<open>schema.parse\<close> succeeds
  only with no issue at all. The input of a schema is \<open>None\<close> for \<open>undefined\<close>
  (a missing property).
\<close>

type_synonym 'a parsed = "issue list \<times> 'a option"

definition z_ok :: "'a \<Rightarrow> 'a parsed" where
  "z_ok v = ([], Some v)"

definition z_invalid :: "issue \<Rightarrow> 'a parsed" where
  "z_invalid i = ([i], None)"

text \<open>Combining the parsed properties of an object or the items of an array.\<close>

definition z_ap :: "('a \<Rightarrow> 'b) parsed \<Rightarrow> 'a parsed \<Rightarrow> 'b parsed" where
  "z_ap pf pa =
     (fst pf @ fst pa,
      (case snd pf of None \<Rightarrow> None
       | Some f \<Rightarrow> (case snd pa of None \<Rightarrow> None | Some a \<Rightarrow> Some (f a))))"

definition z_string :: "json option \<Rightarrow> jsstring parsed" where
  "z_string x = (case x of Some (JString s) \<Rightarrow> z_ok s | _ \<Rightarrow> z_invalid InvalidType)"

text \<open>\<open>z.string().min(1)\<close>\<close>

definition z_string_min1 :: "json option \<Rightarrow> jsstring parsed" where
  "z_string_min1 x =
     (case z_string x of
        (is, None) \<Rightarrow> (is, None)
      | (is, Some s) \<Rightarrow> (if length s < 1 then (is @ [TooSmall], Some s) else (is, Some s)))"

definition z_boolean :: "json option \<Rightarrow> bool parsed" where
  "z_boolean x = (case x of Some (JBool b) \<Rightarrow> z_ok b | _ \<Rightarrow> z_invalid InvalidType)"

text \<open>\<open>z.enum(["ordered", "shuffle"])\<close>\<close>

definition z_studyMode :: "json option \<Rightarrow> StudyMode parsed" where
  "z_studyMode x =
     (case x of
        Some (JString s) \<Rightarrow>
          (if s = js ''ordered'' then z_ok Ordered
           else if s = js ''shuffle'' then z_ok Shuffle
           else z_invalid InvalidEnumValue)
      | _ \<Rightarrow> z_invalid InvalidType)"

definition z_optional :: "(json option \<Rightarrow> 'a parsed) \<Rightarrow> json option \<Rightarrow> 'a option parsed" where
  "z_optional schema x =
     (case x of None \<Rightarrow> z_ok None | Some j \<Rightarrow> z_ap (z_ok Some) (schema (Some j)))"

definition z_nullable :: "(json option \<Rightarrow> 'a parsed) \<Rightarrow> json option \<Rightarrow> 'a option parsed" where
  "z_nullable schema x =
     (case x of Some JNull \<Rightarrow> z_ok None | _ \<Rightarrow> z_ap (z_ok Some) (schema x))"

text \<open>
  \<open>.transform(f)\<close> applies \<open>f\<close> to a valid result and passes a failed one through.
  The value of a failed one is never read: the transforms of the program follow a
  schema without checks, or stand in a schema without refinement.
\<close>

definition z_transform :: "('a \<Rightarrow> 'b) \<Rightarrow> 'a parsed \<Rightarrow> 'b parsed" where
  "z_transform f r = (case r of ([], Some v) \<Rightarrow> z_ok (f v) | (is, _) \<Rightarrow> (is, None))"

text \<open>\<open>.catch(d)\<close> replaces any failure by \<open>d\<close> and forgets its issues.\<close>

definition z_catch :: "'a \<Rightarrow> 'a parsed \<Rightarrow> 'a parsed" where
  "z_catch d r = (case r of ([], Some v) \<Rightarrow> z_ok v | _ \<Rightarrow> z_ok d)"

definition z_array :: "(json option \<Rightarrow> 'a parsed) \<Rightarrow> json option \<Rightarrow> 'a list parsed" where
  "z_array schema x =
     (case x of
        Some (JArray items) \<Rightarrow>
          foldr (\<lambda>item rest. z_ap (z_ap (z_ok (#)) (schema (Some item))) rest) items (z_ok [])
      | _ \<Rightarrow> z_invalid InvalidType)"

text \<open>\<open>z.record(z.string(), schema)\<close>\<close>

definition z_record ::
  "(json option \<Rightarrow> 'a parsed) \<Rightarrow> json option \<Rightarrow> (jsstring \<times> 'a) list parsed" where
  "z_record schema x =
     (case x of
        Some (JObject kvs) \<Rightarrow>
          foldr (\<lambda>kv rest. z_ap (z_ap (z_ok (\<lambda>v. (#) (fst kv, v))) (schema (Some (snd kv)))) rest)
            kvs (z_ok [])
      | _ \<Rightarrow> z_invalid InvalidType)"

text \<open>\<open>schema.parse(x)\<close> throws a ZodError unless there is no issue.\<close>

definition z_parse :: "'a parsed \<Rightarrow> error + 'a" where
  "z_parse r = (case r of ([], Some v) \<Rightarrow> Inr v | (is, _) \<Rightarrow> Inl (ZodError is))"

text \<open>Reading a property of a raw object.\<close>

definition field :: "(jsstring \<times> json) list \<Rightarrow> string \<Rightarrow> json option" where
  "field kvs k = map_of kvs (js k)"

definition isoDateString :: "Host \<Rightarrow> json option \<Rightarrow> jsstring parsed" where
  "isoDateString H x =
     (case z_string_min1 x of
        (is, None) \<Rightarrow> (is, None)
      | (is, Some s) \<Rightarrow>
          (if Date_parse H s = None
           then (is @ [Custom (js ''Expected ISO 8601 date string'')], Some s)
           else (is, Some s)))"

definition mkDeck ::
  "jsstring \<Rightarrow> jsstring \<Rightarrow> jsstring option \<Rightarrow> jsstring \<Rightarrow> jsstring \<Rightarrow> Deck" where
  "mkDeck i t d c u = \<lparr>d_id = i, title = t, description = d, createdAt = c, updatedAt = u\<rparr>"

definition deckSchema :: "Host \<Rightarrow> json option \<Rightarrow> Deck parsed" where
  "deckSchema H x =
     (case x of
        Some (JObject kvs) \<Rightarrow>
          z_ap (z_ap (z_ap (z_ap (z_ap (z_ok mkDeck)
            (z_string_min1 (field kvs ''id'')))
            (z_string_min1 (field kvs ''title'')))
            (z_transform trimOrUndefined (z_optional z_string (field kvs ''description''))))
            (isoDateString H (field kvs ''createdAt'')))
            (isoDateString H (field kvs ''updatedAt''))
      | _ \<Rightarrow> z_invalid InvalidType)"

definition mkCard :: "jsstring \<Rightarrow> jsstring \<Rightarrow> jsstring \<Rightarrow> Card" where
  "mkCard i f b = \<lparr>c_id = i, front = f, back' = b\<rparr>"

definition cardSchema :: "json option \<Rightarrow> Card parsed" where
  "cardSchema x =
     (case x of
        Some (JObject kvs) \<Rightarrow>
          z_ap (z_ap (z_ap (z_ok mkCard)
            (z_string_min1 (field kvs ''id'')))
            (z_string_min1 (field kvs ''front'')))
            (z_string_min1 (field kvs ''back''))
      | _ \<Rightarrow> z_invalid InvalidType)"

definition mkSettings :: "StudyMode \<Rightarrow> bool \<Rightarrow> bool \<Rightarrow> jsstring option \<Rightarrow> Settings" where
  "mkSettings m r rm l =
     \<lparr>defaultStudyMode = m, rememberLastDeck = r, reducedMotion = rm, lastDeckId = l\<rparr>"

definition settingsSchema :: "json option \<Rightarrow> Settings parsed" where
  "settingsSchema x =
     (case x of
        Some (JObject kvs) \<Rightarrow>
          z_ap (z_ap (z_ap (z_ap (z_ok mkSettings)
            (z_catch (defaultStudyMode defaultSettings)
               (z_studyMode (field kvs ''defaultStudyMode''))))
            (z_catch (rememberLastDeck defaultSettings)
               (z_boolean (field kvs ''rememberLastDeck''))))
            (z_catch (reducedMotion defaultSettings)
               (z_boolean (field kvs ''reducedMotion''))))
            (z_transform (\<lambda>v. case v of None \<Rightarrow> None | Some w \<Rightarrow> w)
               (z_nullable (z_optional z_string) (field kvs ''lastDeckId'')))
      | _ \<Rightarrow> z_invalid InvalidType)"

text \<open>\<open>ValidStore\<close>, the output type of \<open>storeSchema\<close>: the settings are optional.\<close>

record ValidStore =
  v_decks :: "Deck list"
  v_cardsByDeck :: CardsByDeck
  v_settings :: "Settings option"

definition mkValidStore :: "Deck list \<Rightarrow> CardsByDeck \<Rightarrow> Settings option \<Rightarrow> ValidStore" where
  "mkValidStore ds cbd st = \<lparr>v_decks = ds, v_cardsByDeck = cbd, v_settings = st\<rparr>"

definition storeObject :: "Host \<Rightarrow> json option \<Rightarrow> ValidStore parsed" where
  "storeObject H x =
     (case x of
        Some (JObject kvs) \<Rightarrow>
          z_ap (z_ap (z_ap (z_ok mkValidStore)
            (z_array (deckSchema H) (field kvs ''decks'')))
            (z_record (z_array cardSchema) (field kvs ''cardsByDeck'')))
            (z_optional settingsSchema (field kvs ''settings''))
      | _ \<Rightarrow> z_invalid InvalidType)"

text \<open>
  The \<open>superRefine\<close> callback: one issue for every deck with
  \<open>!data.cardsByDeck[deck.id]\<close>. A validated entry is an array and a member of
  \<open>Object.prototype\<close> is a function or an object: both are truthy. So the issue is
  raised when the id is no own key of \<open>cardsByDeck\<close> and no name of a member of
  \<open>Object.prototype\<close>.
\<close>

definition missingCards :: "ValidStore \<Rightarrow> issue list" where
  "missingCards data =
     map (\<lambda>deck. Custom (js ''Missing cards array for deck '' @ d_id deck))
       (filter (\<lambda>deck. map_of (v_cardsByDeck data) (d_id deck) = None \<and>
                        \<not> inheritedMember (d_id deck))
          (v_decks data))"

text \<open>A refinement runs unless the parse of the object was aborted.\<close>

definition storeSchema :: "Host \<Rightarrow> json option \<Rightarrow> ValidStore parsed" where
  "storeSchema H x =
     (case storeObject H x of
        (is, None) \<Rightarrow> (is, None)
      | (is, Some data) \<Rightarrow> (is @ missingCards data, Some data))"

section \<open>Serialization\<close>

text \<open>
  \<open>JSON.stringify\<close> of a validated store, as the value \<open>JSON.parse\<close> reads back:
  properties whose value is \<open>undefined\<close> are left out.
\<close>

definition deckJson :: "Deck \<Rightarrow> json" where
  "deckJson d =
     JObject ([(js ''id'', JString (d_id d)), (js ''title'', JString (title d))] @
       (case description d of None \<Rightarrow> [] | Some s \<Rightarrow> [(js ''description'', JString s)]) @
       [(js ''createdAt'', JString (createdAt d)), (js ''updatedAt'', JString (updatedAt d))])"

definition cardJson :: "Card \<Rightarrow> json" where
  "cardJson c =
     JObject [(js ''id'', JString (c_id c)), (js ''front'', JString (front c)),
       (js ''back'', JString (back' c))]"

definition studyModeJson :: "StudyMode \<Rightarrow> json" where
  "studyModeJson m = JString (case m of Ordered \<Rightarrow> js ''ordered'' | Shuffle \<Rightarrow> js ''shuffle'')"

definition settingsJson :: "Settings \<Rightarrow> json" where
  "settingsJson s =
     JObject ([(js ''defaultStudyMode'', studyModeJson (defaultStudyMode s)),
        (js ''rememberLastDeck'', JBool (rememberLastDeck s)),
        (js ''reducedMotion'', JBool (reducedMotion s))] @
       (case lastDeckId s of None \<Rightarrow> [] | Some d \<Rightarrow> [(js ''lastDeckId'', JString d)]))"

definition toJson :: "ValidStore \<Rightarrow> json" where
  "toJson v =
     JObject ([(js ''decks'', JArray (map deckJson (v_decks v))),
        (js ''cardsByDeck'',
           JObject (map (\<lambda>kv. (fst kv, JArray (map cardJson (snd kv)))) (v_cardsByDeck v)))] @
       (case v_settings v of None \<Rightarrow> [] | Some s \<Rightarrow> [(js ''settings'', settingsJson s)]))"

text \<open>
  The in-memory store as a schema sees it. A property holding \<open>undefined\<close> and a
  missing property are the same input for every schema above.
\<close>

definition asRaw :: "StoreState \<Rightarrow> json" where
  "asRaw store =
     toJson \<lparr>v_decks = decks store, v_cardsByDeck = cardsByDeck store,
             v_settings = Some (settings store)\<rparr>"

section \<open>Persistence adapter\<close>

text \<open>
  The text under the storage key, as \<open>JSON.parse\<close> reads it: a SyntaxError, or a
  value. \<open>Unavailable\<close> is an environment without \<open>window.localStorage\<close>;
  \<open>Available None\<close> is an empty slot. \<open>setItem\<close> is taken to succeed (no quota
  error).
\<close>

datatype item = Unparseable | Parsed json

datatype Storage = Unavailable | Available "item option"

definition persist :: "Host \<Rightarrow> StoreState \<Rightarrow> Storage \<Rightarrow> error + Storage" where
  "persist H store st =
     (case st of
        Unavailable \<Rightarrow> Inr st
      | Available _ \<Rightarrow>
          (case z_parse (storeSchema H (Some (asRaw store))) of
             Inl e \<Rightarrow> Inl e
           | Inr validated \<Rightarrow> Inr (Available (Some (Parsed (toJson validated))))))"

section \<open>Sample data\<close>

text \<open>
  \<open>now\<close> is \<open>new Date().toISOString()\<close> and \<open>gen i\<close> is the result of the
  \<open>i\<close>-th call of \<open>generateId\<close>, in evaluation order.
\<close>

definition sampleCards1 :: "(nat \<Rightarrow> jsstring) \<Rightarrow> Card list" where
  "sampleCards1 gen =
     [\<lparr>c_id = gen 2, front = js ''Breathing cadence'',
       back' = js ''Inhale 4, hold 4, exhale 6 to reset focus.''\<rparr>,
      \<lparr>c_id = gen 3, front = js ''Posture cue'',
       back' = js ''Relax your shoulders and lengthen your spine.''\<rparr>,
      \<lparr>c_id = gen 4, front = js ''Micro-break idea'',
       back' = js ''Stand, stretch, and sip water between review blocks.''\<rparr>]"

definition sampleCards2 :: "(nat \<Rightarrow> jsstring) \<Rightarrow> Card list" where
  "sampleCards2 gen =
     [\<lparr>c_id = gen 5, front = js ''Philippians 4:13'',
       back' = js ''I can do all things through Christ who strengthens me.''\<rparr>,
      \<lparr>c_id = gen 6, front = js ''Jeremiah 29:11'',
       back' = js ''For I know the plans I have for you, declares the Lord, plans for welfare and not for evil, to give you a future and a hope.''\<rparr>,
      \<lparr>c_id = gen 7, front = js ''Romans 8:28'',
       back' = js ''And we know that for those who love God all things work together for good, for those who are called according to his purpose.''\<rparr>,
      \<lparr>c_id = gen 8, front = js ''Psalm 23:1'',
       back' = js ''The Lord is my shepherd; I shall not want.''\<rparr>,
      \<lparr>c_id = gen 9, front = js ''Isaiah 41:10'',
       back' = js ''Fear not, for I am with you; be not dismayed, for I am your God; I will strengthen you, I will help you, I will uphold you with my righteous right hand.''\<rparr>,
      \<lparr>c_id = gen 10, front = js ''Proverbs 3:5-6'',
       back' = js ''Trust in the Lord with all your heart, and do not lean on your own understanding. In all your ways acknowledge him, and he will make straight your paths.''\<rparr>,
      \<lparr>c_id = gen 11, front = js ''Matthew 11:28'',
       back' = js ''Come to me, all who labor and are heavy laden, and I will give you rest.''\<rparr>,
      \<lparr>c_id = gen 12, front = js ''Joshua 1:9'',
       back' = js ''Be strong and courageous. Do not be frightened, and do not be dismayed, for the Lord your God is with you wherever you go.''\<rparr>,
      \<lparr>c_id = gen 13, front = js ''Psalm 46:10'',
       back' = js ''Be still, and know that I am God. I will be exalted among the nations, I will be exalted in the earth!''\<rparr>,
      \<lparr>c_id = gen 14, front = js ''1 Corinthians 13:4-5'',
       back' = js ''Love is patient and kind; love does not envy or boast; it is not arrogant or rude. It does not insist on its own way; it is not irritable or resentful.''\<rparr>]"

definition createSampleStore :: "jsstring \<Rightarrow> (nat \<Rightarrow> jsstring) \<Rightarrow> StoreState" where
  "createSampleStore now gen =
     (let deckId1 = gen 0; deckId2 = gen 1 in
      \<lparr>decks =
         [\<lparr>d_id = deckId1, title = js ''Mindful Moments'',
           description = Some (js ''Quick grounding prompts for serene study sessions.''),
           createdAt = now, updatedAt = now\<rparr>,
          \<lparr>d_id = deckId2, title = js ''Bible Verses'',
           description = Some (js ''Scripture references and verses for meditation and study.''),
           createdAt = now, updatedAt = now\<rparr>],
       cardsByDeck =
         AList.update deckId2 (sampleCards2 gen) (AList.update deckId1 (sampleCards1 gen) []),
       settings = defaultSettings\<rparr>)"

section \<open>Hydration\<close>

text \<open>
  The \<open>try\<close> block of \<open>hydrateFromStorage\<close>: it writes to the storage only as its
  last step, so a throw leaves the storage as it was.
\<close>

definition tryLoad :: "Host \<Rightarrow> item \<Rightarrow> Storage \<Rightarrow> error + (StoreState \<times> Storage)" where
  "tryLoad H raw st =
     (case raw of
        Unparseable \<Rightarrow> Inl SyntaxError
      | Parsed j \<Rightarrow>
          (case z_parse (storeSchema H (Some j)) of
             Inl e \<Rightarrow> Inl e
           | Inr parsed \<Rightarrow>
               (if length (v_decks parsed) = 0 then Inl EmptyStore
                else
                  (case normalizeStore H
                      \<lparr>decks = v_decks parsed, cardsByDeck = v_cardsByDeck parsed,
                       settings = (case v_settings parsed of None \<Rightarrow> defaultSettings
                                   | Some s \<Rightarrow> s)\<rparr> of
                     Inl e \<Rightarrow> Inl e
                   | Inr normalized \<Rightarrow>
                       (case persist H normalized st of
                          Inl e \<Rightarrow> Inl e
                        | Inr st' \<Rightarrow> Inr (normalized, st'))))))"

text \<open>\<open>const sample = normalizeStore(createSampleStore()); persist(sample); return sample\<close>\<close>

definition seed ::
  "Host \<Rightarrow> jsstring \<Rightarrow> (nat \<Rightarrow> jsstring) \<Rightarrow> Storage \<Rightarrow> (error + StoreState) \<times> Storage" where
  "seed H now gen st =
     (case normalizeStore H (createSampleStore now gen) of
        Inl e \<Rightarrow> (Inl e, st)
      | Inr sample \<Rightarrow>
          (case persist H sample st of
             Inl e \<Rightarrow> (Inl e, st)
           | Inr st' \<Rightarrow> (Inr sample, st')))"

definition hydrateFromStorage ::
  "Host \<Rightarrow> jsstring \<Rightarrow> (nat \<Rightarrow> jsstring) \<Rightarrow> Storage \<Rightarrow> (error + StoreState) \<times> Storage" where
  "hydrateFromStorage H now gen st =
     (case st of
        Unavailable \<Rightarrow> (normalizeStore H (createSampleStore now gen), st)
      | Available None \<Rightarrow> seed H now gen st
      | Available (Some raw) \<Rightarrow>
          (case tryLoad H raw st of
             Inr (normalized, st') \<Rightarrow> (Inr normalized, st')
           | Inl e \<Rightarrow> seed H now gen st))"

section \<open>Store engine\<close>

text \<open>
  The module state: the in-memory store and the browser's storage. Every operation
  returns its outcome together with the state it leaves behind, so a throw after an
  assignment keeps the assignment. \<open>cloneStore\<close> copies a value and is the identity
  here.
\<close>

record World =
  inMemoryStore :: StoreState
  storage :: Storage

definition snapshot :: "World \<Rightarrow> StoreState" where
  "snapshot w = inMemoryStore w"

definition loadStore :: "World \<Rightarrow> StoreState" where
  "loadStore w = snapshot w"

definition rehydrateInMemory ::
  "Host \<Rightarrow> jsstring \<Rightarrow> (nat \<Rightarrow> jsstring) \<Rightarrow> World \<Rightarrow> (error + StoreState) \<times> World" where
  "rehydrateInMemory H now gen w =
     (case hydrateFromStorage H now gen (storage w) of
        (Inl e, st) \<Rightarrow> (Inl e, w\<lparr>storage := st\<rparr>)
      | (Inr store, st) \<Rightarrow> (Inr store, \<lparr>inMemoryStore = store, storage = st\<rparr>))"

definition saveStore :: "Host \<Rightarrow> StoreState \<Rightarrow> World \<Rightarrow> (error + unit) \<times> World" where
  "saveStore H store w =
     (case normalizeStore H store of
        Inl e \<Rightarrow> (Inl e, w)
      | Inr normalized \<Rightarrow>
          (case persist H normalized (storage w) of
             Inl e \<Rightarrow> (Inl e, w\<lparr>inMemoryStore := normalized\<rparr>)
           | Inr st \<Rightarrow> (Inr (), \<lparr>inMemoryStore = normalized, storage = st\<rparr>)))"

text \<open>
  \<open>mutateStore\<close>: the mutator works on a copy (the draft) and either throws or returns
  the mutated draft with its result. The in-memory store is assigned after
  normalization and before \<open>persist\<close>.
\<close>

definition mutateStore ::
  "Host \<Rightarrow> (StoreState \<Rightarrow> error + (StoreState \<times> 'r)) \<Rightarrow> World \<Rightarrow> (error + 'r) \<times> World" where
  "mutateStore H mutator w =
     (case mutator (snapshot w) of
        Inl e \<Rightarrow> (Inl e, w)
      | Inr (draft, mutationResult) \<Rightarrow>
          (case normalizeStore H draft of
             Inl e \<Rightarrow> (Inl e, w)
           | Inr normalized \<Rightarrow>
               (case persist H normalized (storage w) of
                  Inl e \<Rightarrow> (Inl e, w\<lparr>inMemoryStore := normalized\<rparr>)
                | Inr st \<Rightarrow> (Inr mutationResult, \<lparr>inMemoryStore = normalized, storage = st\<rparr>))))"

text \<open>
  \<open>Array.prototype.sort\<close> is stable; \<open>compare a b \<le> 0\<close> keeps \<open>a\<close> before \<open>b\<close>.
\<close>

fun insertSorted :: "('a \<Rightarrow> 'a \<Rightarrow> int) \<Rightarrow> 'a \<Rightarrow> 'a list \<Rightarrow> 'a list" where
  "insertSorted compare x [] = [x]"
| "insertSorted compare x (y # ys) =
     (if compare x y \<le> 0 then x # y # ys else y # insertSorted compare x ys)"

definition sortBy :: "('a \<Rightarrow> 'a \<Rightarrow> int) \<Rightarrow> 'a list \<Rightarrow> 'a list" where
  "sortBy compare xs = foldr (insertSorted compare) xs []"

definition listDecks :: "Host \<Rightarrow> World \<Rightarrow> Deck list" where
  "listDecks H w =
     sortBy (\<lambda>a b. localeCompare H (updatedAt b) (updatedAt a)) (decks (loadStore w))"

definition getDeck :: "World \<Rightarrow> jsstring \<Rightarrow> Deck option" where
  "getDeck w deckId = find (\<lambda>item. d_id item = deckId) (decks (loadStore w))"

text \<open>\<open>(loadStore().cardsByDeck[deckId] ?? []).map((card) => ({ ...card }))\<close>\<close>

definition listCards :: "World \<Rightarrow> jsstring \<Rightarrow> error + Card list" where
  "listCards w deckId = cardsOf (cardsByDeck (loadStore w)) deckId"

text \<open>
  Assigning to a property of the object that \<open>find\<close> returned changes the first
  element that satisfies the predicate; \<open>splice(findIndex(...), 1)\<close> removes it.
\<close>

fun replaceFirst :: "('a \<Rightarrow> bool) \<Rightarrow> 'a \<Rightarrow> 'a list \<Rightarrow> 'a list" where
  "replaceFirst P y [] = []"
| "replaceFirst P y (x # xs) = (if P x then y # xs else x # replaceFirst P y xs)"

fun removeFirst :: "('a \<Rightarrow> bool) \<Rightarrow> 'a list \<Rightarrow> 'a list" where
  "removeFirst P [] = []"
| "removeFirst P (x # xs) = (if P x then xs else x # removeFirst P xs)"

record CreateDeckInput =
  cd_title :: jsstring
  cd_description :: "jsstring option"

definition createDeck ::
  "Host \<Rightarrow> jsstring \<Rightarrow> jsstring \<Rightarrow> CreateDeckInput \<Rightarrow> World \<Rightarrow> (error + Deck) \<times> World" where
  "createDeck H now newId input w =
     (let trimmedTitle = trim (cd_title input) in
      if trimmedTitle = [] then (Inl DeckTitleRequired, w)
      else
        mutateStore H
          (\<lambda>draft.
             let deck = \<lparr>d_id = newId, title = trimmedTitle,
                         description = trimOrUndefined (cd_description input),
                         createdAt = now, updatedAt = now\<rparr>
             in Inr (draft\<lparr>decks := decks draft @ [deck],
                           cardsByDeck := AList.update (d_id deck) [] (cardsByDeck draft)\<rparr>,
                     deck))
          w)"

text \<open>\<open>description?: string | null\<close> of \<open>UpdateDeckInput\<close>\<close>

datatype descriptionChange = DescriptionAbsent | DescriptionNull | DescriptionText jsstring

record UpdateDeckInput =
  ud_title :: "jsstring option"
  ud_description :: descriptionChange

definition updateDeck ::
  "Host \<Rightarrow> jsstring \<Rightarrow> jsstring \<Rightarrow> UpdateDeckInput \<Rightarrow> World \<Rightarrow> (error + Deck) \<times> World" where
  "updateDeck H now deckId changes w =
     mutateStore H
       (\<lambda>draft.
          case find (\<lambda>item. d_id item = deckId) (decks draft) of
            None \<Rightarrow> Inl (DeckNotFound deckId)
          | Some deck \<Rightarrow>
              (case (case ud_title changes of
                       None \<Rightarrow> Inr deck
                     | Some t \<Rightarrow>
                         (if trim t = [] then Inl DeckTitleEmpty
                          else Inr (deck\<lparr>title := trim t\<rparr>))) of
                 Inl e \<Rightarrow> Inl e
               | Inr deck1 \<Rightarrow>
                   (let deck2 =
                          (case ud_description changes of
                             DescriptionText s \<Rightarrow> deck1\<lparr>description := trimOrUndefined (Some s)\<rparr>
                           | DescriptionNull \<Rightarrow> deck1\<lparr>description := None\<rparr>
                           | DescriptionAbsent \<Rightarrow> deck1);
                        deck3 = deck2\<lparr>updatedAt := now\<rparr>
                    in Inr (draft\<lparr>decks :=
                                    replaceFirst (\<lambda>item. d_id item = deckId) deck3 (decks draft)\<rparr>,
                            deck3))))
       w"

definition deleteDeck :: "Host \<Rightarrow> jsstring \<Rightarrow> World \<Rightarrow> (error + unit) \<times> World" where
  "deleteDeck H deckId w =
     mutateStore H
       (\<lambda>draft.
          if find (\<lambda>item. d_id item = deckId) (decks draft) = None
          then Inl (DeckNotFound deckId)
          else
            Inr (draft\<lparr>decks := removeFirst (\<lambda>item. d_id item = deckId) (decks draft),
                       cardsByDeck := AList.delete deckId (cardsByDeck draft),
                       settings :=
                         (if lastDeckId (settings draft) = Some deckId
                          then (settings draft)\<lparr>lastDeckId := None\<rparr>
                          else settings draft)\<rparr>,
                 ()))
       w"

record CardInput =
  ci_front :: jsstring
  ci_back :: jsstring

definition addCard ::
  "Host \<Rightarrow> jsstring \<Rightarrow> jsstring \<Rightarrow> jsstring \<Rightarrow> CardInput \<Rightarrow> World \<Rightarrow> (error + Card) \<times> World" where
  "addCard H now newId deckId input w =
     (let trimmedFront = trim (ci_front input); trimmedBack = trim (ci_back input) in
      if trimmedFront = [] \<or> trimmedBack = [] then (Inl CardFieldsRequired, w)
      else
        mutateStore H
          (\<lambda>draft.
             case find (\<lambda>item. d_id item = deckId) (decks draft) of
               None \<Rightarrow> Inl (DeckNotFound deckId)
             | Some deck \<Rightarrow>
                 (let c = \<lparr>c_id = newId, front = trimmedFront, back' = trimmedBack\<rparr> in
                  case cardsOf (cardsByDeck draft) (d_id deck) of
                    Inl e \<Rightarrow> Inl e
                  | Inr cards0 \<Rightarrow>
                      (let cards = cards0 @ [c]
                       in Inr (draft\<lparr>cardsByDeck :=
                                       AList.update (d_id deck) cards (cardsByDeck draft),
                                     decks := replaceFirst (\<lambda>item. d_id item = deckId)
                                                (deck\<lparr>updatedAt := now\<rparr>) (decks draft)\<rparr>,
                               c))))
          w)"

record UpdateCardInput =
  uc_front :: "jsstring option"
  uc_back :: "jsstring option"

definition updateCard ::
  "Host \<Rightarrow> jsstring \<Rightarrow> jsstring \<Rightarrow> jsstring \<Rightarrow> UpdateCardInput \<Rightarrow> World \<Rightarrow>
     (error + Card) \<times> World" where
  "updateCard H now deckId cardId changes w =
     mutateStore H
       (\<lambda>draft.
          case find (\<lambda>item. d_id item = deckId) (decks draft) of
            None \<Rightarrow> Inl (DeckNotFound deckId)
          | Some deck \<Rightarrow>
              (case cardsOf (cardsByDeck draft) (d_id deck) of
                 Inl e \<Rightarrow> Inl e
               | Inr cards \<Rightarrow>
               case find (\<lambda>item. c_id item = cardId) cards of
                 None \<Rightarrow> Inl (CardNotFound cardId deckId)
               | Some c \<Rightarrow>
                   (case (case uc_front changes of
                            None \<Rightarrow> Inr c
                          | Some f \<Rightarrow>
                              (if trim f = [] then Inl CardFrontEmpty
                               else Inr (c\<lparr>front := trim f\<rparr>))) of
                      Inl e \<Rightarrow> Inl e
                    | Inr c1 \<Rightarrow>
                        (case (case uc_back changes of
                                 None \<Rightarrow> Inr c1
                               | Some b \<Rightarrow>
                                   (if trim b = [] then Inl CardBackEmpty
                                    else Inr (c1\<lparr>back' := trim b\<rparr>))) of
                           Inl e \<Rightarrow> Inl e
                         | Inr c2 \<Rightarrow>
                             Inr (draft\<lparr>cardsByDeck :=
                                          AList.update (d_id deck)
                                            (replaceFirst (\<lambda>item. c_id item = cardId) c2 cards)
                                            (cardsByDeck draft),
                                        decks := replaceFirst (\<lambda>item. d_id item = deckId)
                                                   (deck\<lparr>updatedAt := now\<rparr>) (decks draft)\<rparr>,
                                  c2)))))
       w"

definition deleteCard ::
  "Host \<Rightarrow> jsstring \<Rightarrow> jsstring \<Rightarrow> jsstring \<Rightarrow> World \<Rightarrow> (error + unit) \<times> World" where
  "deleteCard H now deckId cardId w =
     mutateStore H
       (\<lambda>draft.
          case find (\<lambda>item. d_id item = deckId) (decks draft) of
            None \<Rightarrow> Inl (DeckNotFound deckId)
          | Some deck \<Rightarrow>
              (case cardsOf (cardsByDeck draft) (d_id deck) of
                 Inl e \<Rightarrow> Inl e
               | Inr cards \<Rightarrow>
               if find (\<lambda>item. c_id item = cardId) cards = None
               then Inl (CardNotFound cardId deckId)
               else
                 Inr (draft\<lparr>cardsByDeck :=
                              AList.update (d_id deck)
                                (removeFirst (\<lambda>item. c_id item = cardId) cards)
                                (cardsByDeck draft),
                            decks := replaceFirst (\<lambda>item. d_id item = deckId)
                                       (deck\<lparr>updatedAt := now\<rparr>) (decks draft)\<rparr>,
                      ())))
       w"

text \<open>The spread \<open>{ ...draft.settings, ...changes }\<close>.\<close>

definition overlay :: "'a property \<Rightarrow> 'a property \<Rightarrow> 'a property" where
  "overlay base change = (case change of Absent \<Rightarrow> base | _ \<Rightarrow> change)"

definition spreadSettings :: "Settings \<Rightarrow> PartialSettings \<Rightarrow> PartialSettings" where
  "spreadSettings s changes =
     \<lparr>p_defaultStudyMode = overlay (p_defaultStudyMode (asPartial s)) (p_defaultStudyMode changes),
      p_rememberLastDeck = overlay (p_rememberLastDeck (asPartial s)) (p_rememberLastDeck changes),
      p_reducedMotion = overlay (p_reducedMotion (asPartial s)) (p_reducedMotion changes),
      p_lastDeckId = overlay (p_lastDeckId (asPartial s)) (p_lastDeckId changes)\<rparr>"

definition updateSettings ::
  "Host \<Rightarrow> PartialSettings \<Rightarrow> World \<Rightarrow> (error + Settings) \<times> World" where
  "updateSettings H changes w =
     mutateStore H
       (\<lambda>draft.
          let next0 = normalizeSettings (Some (spreadSettings (settings draft) changes));
              next = (if \<not> rememberLastDeck next0 then next0\<lparr>lastDeckId := None\<rparr> else next0)
          in Inr (draft\<lparr>settings := next\<rparr>, next))
       w"

definition setLastDeckId :: "Host \<Rightarrow> jsstring option \<Rightarrow> World \<Rightarrow> (error + unit) \<times> World" where
  "setLastDeckId H deckId w =
     mutateStore H
       (\<lambda>draft.
          if \<not> rememberLastDeck (settings draft)
          then Inr (draft\<lparr>settings := (settings draft)\<lparr>lastDeckId := None\<rparr>\<rparr>, ())
          else Inr (draft\<lparr>settings := (settings draft)\<lparr>lastDeckId := deckId\<rparr>\<rparr>, ()))
       w"

section \<open>Import (ImportExport.tsx)\<close>

text \<open>The \<open>{ front: string; back: string }\<close> objects of the import preview.\<close>

record CardContent =
  cc_front :: jsstring
  cc_back :: jsstring

record ImportedCard = CardContent +
  ic_id :: "jsstring option"

definition sanitizedCards :: "'a CardContent_scheme list \<Rightarrow> CardContent list" where
  "sanitizedCards raw =
     filter (\<lambda>c. length (cc_front c) > 0 \<and> length (cc_back c) > 0)
       (map (\<lambda>c. \<lparr>cc_front = trim (cc_front c), cc_back = trim (cc_back c)\<rparr>) raw)"

subsection \<open>CSV\<close>

text \<open>
  The scanning loop of \<open>parseCsv\<close>: the text still to read, \<open>inQuotes\<close>, the cell
  \<open>current\<close>, the cells of the \<open>row\<close> so far and the finished \<open>rows\<close>. Reading
  \<open>text[index + 1]\<close> past the end gives \<open>undefined\<close>, which equals no character.
\<close>

fun csvScan ::
  "jsstring \<Rightarrow> bool \<Rightarrow> jsstring \<Rightarrow> jsstring list \<Rightarrow> jsstring list list \<Rightarrow>
     jsstring \<times> jsstring list \<times> jsstring list list" where
  "csvScan [] inQuotes current row rows = (current, row, rows)"
| "csvScan (c # rest) inQuotes current row rows =
     (if c = 0x22 then
        (case rest of
           [] \<Rightarrow> csvScan rest (\<not> inQuotes) current row rows
         | d # rest' \<Rightarrow>
             (if inQuotes \<and> d = 0x22 then csvScan rest' inQuotes (current @ [0x22]) row rows
              else csvScan rest (\<not> inQuotes) current row rows))
      else if c = 0x2C \<and> \<not> inQuotes then csvScan rest inQuotes [] (row @ [current]) rows
      else if (c = 0x0A \<or> c = 0x0D) \<and> \<not> inQuotes then
        (case rest of
           [] \<Rightarrow> csvScan rest inQuotes [] [] (rows @ [row @ [current]])
         | d # rest' \<Rightarrow>
             (if c = 0x0D \<and> d = 0x0A then csvScan rest' inQuotes [] [] (rows @ [row @ [current]])
              else csvScan rest inQuotes [] [] (rows @ [row @ [current]])))
      else csvScan rest inQuotes (current @ [c]) row rows)"

text \<open>
  \<open>toLowerCase\<close>, as far as the comparison with the ASCII words "front" and "back"
  can see it: the letters A to Z and the KELVIN SIGN are the only code units whose
  lower case is an ASCII letter, and every other code unit outside ASCII leaves a
  code unit outside ASCII in the result.
\<close>

definition toLowerCase :: "jsstring \<Rightarrow> jsstring" where
  "toLowerCase s =
     map (\<lambda>c. if 0x41 \<le> c \<and> c \<le> 0x5A then c + 0x20 else if c = 0x212A then 0x6B else c) s"

fun indexOf :: "'a list \<Rightarrow> 'a \<Rightarrow> nat option" where
  "indexOf [] v = None"
| "indexOf (x # xs) v =
     (if x = v then Some 0 else (case indexOf xs v of None \<Rightarrow> None | Some i \<Rightarrow> Some (Suc i)))"

text \<open>\<open>cells[i] ?? ""\<close>\<close>

definition cellAt :: "jsstring list \<Rightarrow> nat \<Rightarrow> jsstring" where
  "cellAt cells i = (if i < length cells then cells ! i else [])"

definition parseCsv :: "jsstring \<Rightarrow> error + CardContent list" where
  "parseCsv text =
     (case csvScan text False [] [] [] of
        (current, row, rows0) \<Rightarrow>
          (let rows = (if length current > 0 \<or> length row > 0 then rows0 @ [row @ [current]]
                       else rows0);
               nonEmptyRows = filter (list_ex (\<lambda>cell. length (trim cell) > 0)) rows
           in case nonEmptyRows of
                [] \<Rightarrow> Inr []
              | headerRow # dataRows \<Rightarrow>
                  (let headers = map (\<lambda>v. toLowerCase (trim v)) headerRow in
                   case indexOf headers (js ''front'') of
                     None \<Rightarrow> Inl CsvColumnsMissing
                   | Some frontIndex \<Rightarrow>
                       (case indexOf headers (js ''back'') of
                          None \<Rightarrow> Inl CsvColumnsMissing
                        | Some backIndex \<Rightarrow>
                            Inr (map (\<lambda>cells. \<lparr>cc_front = cellAt cells frontIndex,
                                                cc_back = cellAt cells backIndex\<rparr>)
                                   dataRows)))))"

datatype importSource = SourceJson | SourceCsv

record ImportPreview =
  deckTitle :: jsstring
  deckDescription :: "jsstring option"
  cards :: "CardContent list"
  source :: importSource
  filename :: jsstring

definition DEFAULT_DECK_TITLE :: jsstring where
  "DEFAULT_DECK_TITLE = js ''Imported deck''"

text \<open>
  \<open>filename.replace(/\.[^/.]+$/, "")\<close>: a last dot followed by at least one character,
  none of them a slash, is cut off with what follows it.
\<close>

definition stripExtension :: "jsstring \<Rightarrow> jsstring" where
  "stripExtension name =
     (let ext = takeWhile (\<lambda>c. c \<noteq> 0x2E) (rev name) in
      if length ext < length name \<and> length ext > 0 \<and> \<not> list_ex (\<lambda>c. c = 0x2F) ext
      then take (length name - length ext - 1) name
      else name)"

text \<open>
  \<open>parseCsvFile\<close> and \<open>parseJson\<close> end by storing the preview in the component
  state (the other setters repeat its title and description); the model returns it.
\<close>

definition parseCsvFile :: "jsstring \<Rightarrow> jsstring \<Rightarrow> error + ImportPreview" where
  "parseCsvFile text name =
     (case parseCsv text of
        Inl e \<Rightarrow> Inl e
      | Inr rows \<Rightarrow>
          (let cs = sanitizedCards rows in
           if length cs = 0 then Inl NoCardsInCsv
           else
             (let fallbackTitle =
                    (if stripExtension name = [] then DEFAULT_DECK_TITLE else stripExtension name)
              in Inr \<lparr>deckTitle = fallbackTitle, deckDescription = None, cards = cs,
                      source = SourceCsv, filename = name\<rparr>)))"

subsection \<open>JSON\<close>

record ImportDeck =
  id_id :: "jsstring option"
  id_title :: jsstring
  id_description :: "jsstring option"

record ImportPayload =
  ip_deck :: ImportDeck
  ip_cards :: "ImportedCard list"

definition mkImportDeck :: "jsstring option \<Rightarrow> jsstring \<Rightarrow> jsstring option \<Rightarrow> ImportDeck" where
  "mkImportDeck i t d = \<lparr>id_id = i, id_title = t, id_description = d\<rparr>"

definition importDeckSchema :: "json option \<Rightarrow> ImportDeck parsed" where
  "importDeckSchema x =
     z_transform
       (\<lambda>v. \<lparr>id_id = id_id v, id_title = trim (id_title v),
              id_description = trimOrUndefined (id_description v)\<rparr>)
       (case x of
          Some (JObject kvs) \<Rightarrow>
            z_ap (z_ap (z_ap (z_ok mkImportDeck)
              (z_optional z_string (field kvs ''id'')))
              (z_string_min1 (field kvs ''title'')))
              (z_optional z_string (field kvs ''description''))
        | _ \<Rightarrow> z_invalid InvalidType)"

definition mkImportedCard :: "jsstring option \<Rightarrow> jsstring \<Rightarrow> jsstring \<Rightarrow> ImportedCard" where
  "mkImportedCard i f b = \<lparr>cc_front = f, cc_back = b, ic_id = i\<rparr>"

definition importCardSchema :: "json option \<Rightarrow> ImportedCard parsed" where
  "importCardSchema x =
     (case x of
        Some (JObject kvs) \<Rightarrow>
          z_ap (z_ap (z_ap (z_ok mkImportedCard)
            (z_optional z_string (field kvs ''id'')))
            (z_string (field kvs ''front'')))
            (z_string (field kvs ''back''))
      | _ \<Rightarrow> z_invalid InvalidType)"

text \<open>\<open>z.array(schema).min(1)\<close>\<close>

definition z_array_min1 :: "(json option \<Rightarrow> 'a parsed) \<Rightarrow> json option \<Rightarrow> 'a list parsed" where
  "z_array_min1 schema x =
     (case x of
        Some (JArray items) \<Rightarrow>
          (case z_array schema x of
             (is, v) \<Rightarrow> ((if length items < 1 then [TooSmall] else []) @ is, v))
      | _ \<Rightarrow> z_invalid InvalidType)"

definition mkImportPayload :: "ImportDeck \<Rightarrow> ImportedCard list \<Rightarrow> ImportPayload" where
  "mkImportPayload d cs = \<lparr>ip_deck = d, ip_cards = cs\<rparr>"

definition importJsonSchema :: "json option \<Rightarrow> ImportPayload parsed" where
  "importJsonSchema x =
     (case x of
        Some (JObject kvs) \<Rightarrow>
          z_ap (z_ap (z_ok mkImportPayload)
            (importDeckSchema (field kvs ''deck'')))
            (z_array_min1 importCardSchema (field kvs ''cards''))
      | _ \<Rightarrow> z_invalid InvalidType)"

text \<open>\<open>parseJson\<close>, from what \<open>JSON.parse\<close> makes of the file's text.\<close>

definition parseJson :: "item \<Rightarrow> jsstring \<Rightarrow> error + ImportPreview" where
  "parseJson raw name =
     (case raw of
        Unparseable \<Rightarrow> Inl SyntaxError
      | Parsed j \<Rightarrow>
          (case z_parse (importJsonSchema (Some j)) of
             Inl e \<Rightarrow> Inl e
           | Inr parsed \<Rightarrow>
               (let cs = sanitizedCards (ip_cards parsed) in
                if length cs = 0 then Inl NoValidCards
                else
                  Inr \<lparr>deckTitle = (if id_title (ip_deck parsed) = [] then DEFAULT_DECK_TITLE
                                     else id_title (ip_deck parsed)),
                       deckDescription = id_description (ip_deck parsed),
                       cards = cs, source = SourceJson, filename = name\<rparr>)))"

section \<open>The operations as one step function\<close>

text \<open>
  The actions of the store (\<open>StoreActions\<close>, and \<open>saveStore\<close>), each with the values
  it draws from the clock and from \<open>generateId\<close>. \<open>perform\<close> keeps the error of a
  failed call and the state after the call.
\<close>

datatype operation =
    CreateDeck jsstring jsstring CreateDeckInput
  | UpdateDeck jsstring jsstring UpdateDeckInput
  | DeleteDeck jsstring
  | AddCard jsstring jsstring jsstring CardInput
  | UpdateCard jsstring jsstring jsstring UpdateCardInput
  | DeleteCard jsstring jsstring jsstring
  | UpdateSettings PartialSettings
  | SetLastDeckId "jsstring option"
  | Refresh jsstring "nat \<Rightarrow> jsstring"
  | SaveStore StoreState

definition thrown :: "(error + 'r) \<times> World \<Rightarrow> error option \<times> World" where
  "thrown r = ((case fst r of Inl e \<Rightarrow> Some e | Inr v \<Rightarrow> None), snd r)"

fun perform :: "Host \<Rightarrow> operation \<Rightarrow> World \<Rightarrow> error option \<times> World" where
  "perform H (CreateDeck now newId input) w = thrown (createDeck H now newId input w)"
| "perform H (UpdateDeck now deckId changes) w = thrown (updateDeck H now deckId changes w)"
| "perform H (DeleteDeck deckId) w = thrown (deleteDeck H deckId w)"
| "perform H (AddCard now newId deckId input) w = thrown (addCard H now newId deckId input w)"
| "perform H (UpdateCard now deckId cardId changes) w =
     thrown (updateCard H now deckId cardId changes w)"
| "perform H (DeleteCard now deckId cardId) w = thrown (deleteCard H now deckId cardId w)"
| "perform H (UpdateSettings changes) w = thrown (updateSettings H changes w)"
| "perform H (SetLastDeckId deckId) w = thrown (setLastDeckId H deckId w)"
| "perform H (Refresh now gen) w = thrown (rehydrateInMemory H now gen w)"
| "perform H (SaveStore store) w = thrown (saveStore H store w)"

text \<open>The six mutations of decks and cards.\<close>

fun isMutation :: "operation \<Rightarrow> bool" where
  "isMutation (CreateDeck now newId input) = True"
| "isMutation (UpdateDeck now deckId changes) = True"
| "isMutation (DeleteDeck deckId) = True"
| "isMutation (AddCard now newId deckId input) = True"
| "isMutation (UpdateCard now deckId cardId changes) = True"
| "isMutation (DeleteCard now deckId cardId) = True"
| "isMutation other = False"

text \<open>
  The errors that reject a call: a required text is empty after trimming, or a deck
  or card id is unknown.
\<close>

fun isRejection :: "error \<Rightarrow> bool" where
  "isRejection DeckTitleRequired = True"
| "isRejection DeckTitleEmpty = True"
| "isRejection CardFieldsRequired = True"
| "isRejection CardFrontEmpty = True"
| "isRejection CardBackEmpty = True"
| "isRejection (DeckNotFound d) = True"
| "isRejection (CardNotFound c d) = True"
| "isRejection other = False"

text \<open>Invariant 5 of the data model.\<close>

definition lastDeckInvariant :: "Settings \<Rightarrow> bool" where
  "lastDeckInvariant s = (rememberLastDeck s \<or> lastDeckId s = None)"

section \<open>Example data\<close>

text \<open>
  A host that knows three spellings of two instants, with code unit order for
  \<open>localeCompare\<close>.
\<close>

fun compareUnits :: "jsstring \<Rightarrow> jsstring \<Rightarrow> int" where
  "compareUnits [] [] = 0"
| "compareUnits [] (y # ys) = - 1"
| "compareUnits (x # xs) [] = 1"
| "compareUnits (x # xs) (y # ys) =
     (if x < y then - 1 else if y < x then 1 else compareUnits xs ys)"

definition exampleHost :: Host where
  "exampleHost =
     \<lparr>Date_parse =
        map_of [(js ''2024-01-01T00:00:00.000Z'', 1704067200000),
                (js ''2024-01-01'', 1704067200000),
                (js ''2025-01-01T00:00:00.000Z'', 1735689600000)],
      toISOString =
        (\<lambda>t. if t = 1704067200000 then js ''2024-01-01T00:00:00.000Z''
             else js ''2025-01-01T00:00:00.000Z''),
      localeCompare = compareUnits\<rparr>"

text \<open>The store of the repository's own store test.\<close>

definition BASE_TIMESTAMP :: jsstring where
  "BASE_TIMESTAMP = js ''2024-01-01T00:00:00.000Z''"

definition baseStore :: StoreState where
  "baseStore =
     \<lparr>decks =
        [\<lparr>d_id = js ''deck-existing'', title = js ''Existing Deck'',
          description = Some (js ''Original description''),
          createdAt = BASE_TIMESTAMP, updatedAt = BASE_TIMESTAMP\<rparr>],
      cardsByDeck = [(js ''deck-existing'', [])],
      settings = defaultSettings\<rparr>"

definition baseWorld :: World where
  "baseWorld = \<lparr>inMemoryStore = baseStore, storage = Available None\<rparr>"

definition nowExample :: jsstring where
  "nowExample = js ''2025-01-01T00:00:00.000Z''"



text \<open>The CSV text of the import example: a header line and two data lines.\<close>

definition csvExample :: jsstring where
  "csvExample =
     js ''front,back\<newline>\"Greeting, friendly\",\"Hello, \"\"friend\"\"!\"\<newline>Affirmation,You are capable''"

section \<open>Vocabulary of the properties\<close>


text \<open>
  The cards of the own entry of a key, none without such an entry; and the object that
  the loop of \<open>normalizeStore\<close> builds from them when no read throws.
\<close>

definition ownCards :: "CardsByDeck \<Rightarrow> jsstring \<Rightarrow> Card list" where
  "ownCards cbd k = (case map_of cbd k of None \<Rightarrow> [] | Some cs \<Rightarrow> cs)"

definition builtCards :: "CardsByDeck \<Rightarrow> Deck list \<Rightarrow> CardsByDeck" where
  "builtCards old ds =
     fold (\<lambda>deck acc. AList.update (d_id deck) (map normalizeCard (ownCards old (d_id deck))) acc)
       ds []"

text \<open>A card of an import is blank when its front or its back is empty after trimming.\<close>

definition blankCard :: "'a CardContent_scheme \<Rightarrow> bool" where
  "blankCard c = (trim (cc_front c) = [] \<or> trim (cc_back c) = [])"

definition trimmedContent :: "'a CardContent_scheme \<Rightarrow> CardContent" where
  "trimmedContent c = \<lparr>cc_front = trim (cc_front c), cc_back = trim (cc_back c)\<rparr>"


text \<open>A raw property that is a string, \<open>null\<close> or missing.\<close>

fun stringOrNullish :: "json option \<Rightarrow> bool" where
  "stringOrNullish None = True"
| "stringOrNullish (Some JNull) = True"
| "stringOrNullish (Some (JString s)) = True"
| "stringOrNullish (Some other) = False"

text \<open>A raw property read as a study mode or as a boolean, with the default for
  everything else.\<close>

definition studyModeOrDefault :: "json option \<Rightarrow> StudyMode" where
  "studyModeOrDefault x =
     (if x = Some (JString (js ''ordered'')) then Ordered
      else if x = Some (JString (js ''shuffle'')) then Shuffle
      else defaultStudyMode defaultSettings)"

definition booleanOr :: "bool \<Rightarrow> json option \<Rightarrow> bool" where
  "booleanOr d x = (case x of Some (JBool b) \<Rightarrow> b | _ \<Rightarrow> d)"

section \<open>Example inputs\<close>

text \<open>Two import files: one whose only card has a blank front, one with a second,
  untrimmed card.\<close>

definition blankPayload :: json where
  "blankPayload =
     JObject [(js ''deck'', JObject [(js ''title'', JString (js ''Verbs''))]),
              (js ''cards'', JArray [JObject [(js ''front'', JString (js ''  '')),
                                              (js ''back'', JString (js ''to run''))]])]"

definition mixedPayload :: json where
  "mixedPayload =
     JObject [(js ''deck'', JObject [(js ''title'', JString (js ''Verbs''))]),
              (js ''cards'', JArray [JObject [(js ''front'', JString (js ''  '')),
                                              (js ''back'', JString (js ''to run''))],
                                     JObject [(js ''front'', JString (js '' correr '')),
                                              (js ''back'', JString (js ''to run''))]])]"

text \<open>Raw settings with an unknown study mode and a number for a boolean; a raw store
  whose \<open>lastDeckId\<close> is a number; a raw store whose deck has no card list.\<close>

definition oddSettings :: "(jsstring \<times> json) list" where
  "oddSettings =
     [(js ''defaultStudyMode'', JString (js ''random'')),
      (js ''rememberLastDeck'', JBool True),
      (js ''reducedMotion'', JNumber 1),
      (js ''lastDeckId'', JString (js ''deck-1''))]"

definition badLastDeckStore :: json where
  "badLastDeckStore =
     JObject [(js ''decks'', JArray []), (js ''cardsByDeck'', JObject []),
              (js ''settings'', JObject [(js ''lastDeckId'', JNumber 5)])]"






section \<open>Reachable states and further vocabulary\<close>

text \<open>
  The states the module can be in: it starts with what \<open>hydrateFromStorage\<close> returns
  (the module does not load if that throws), every action leads to a next state, and
  the storage can change under the program (another tab, or the user clearing it).
\<close>

inductive reachable :: "Host \<Rightarrow> World \<Rightarrow> bool" for H :: Host where
  start: "hydrateFromStorage H now gen st = (Inr store, st') \<Longrightarrow>
            reachable H \<lparr>inMemoryStore = store, storage = st'\<rparr>"
| step: "reachable H w \<Longrightarrow> perform H op w = (e, w') \<Longrightarrow> reachable H w'"
| tamper: "reachable H w \<Longrightarrow> reachable H (w\<lparr>storage := st\<rparr>)"

text \<open>The argument of \<open>updateSettings({ rememberLastDeck: false })\<close>.\<close>

definition rememberOff :: PartialSettings where
  "rememberOff =
     \<lparr>p_defaultStudyMode = Absent, p_rememberLastDeck = Value False, p_reducedMotion = Absent,
      p_lastDeckId = Absent\<rparr>"

text \<open>
  What \<open>storeSchema\<close> makes of a store of the program: the description of a deck goes
  through the schema's transform, everything else is kept. \<open>deckIssues\<close> and
  \<open>cardIssues\<close> are the issues the schema raises for one deck and one card.
\<close>

definition validatedDeck :: "Deck \<Rightarrow> Deck" where
  "validatedDeck d = d\<lparr>description := trimOrUndefined (description d)\<rparr>"

definition validated :: "StoreState \<Rightarrow> ValidStore" where
  "validated s =
     \<lparr>v_decks = map validatedDeck (decks s), v_cardsByDeck = cardsByDeck s,
      v_settings = Some (settings s)\<rparr>"

definition deckIssues :: "Host \<Rightarrow> Deck \<Rightarrow> issue list" where
  "deckIssues H d = fst (deckSchema H (Some (deckJson d)))"

definition cardIssues :: "Card \<Rightarrow> issue list" where
  "cardIssues c = fst (cardSchema (Some (cardJson c)))"

text \<open>
  A draft whose decks have an id and a title that is not blank, and whose cards (in
  the own entries of these decks) have an id and a front and back that are not blank.
\<close>

definition draftStorable :: "StoreState \<Rightarrow> bool" where
  "draftStorable s =
     list_all (\<lambda>d. d_id d \<noteq> [] \<and> trim (title d) \<noteq> [] \<and>
        list_all (\<lambda>c. c_id c \<noteq> [] \<and> trim (front c) \<noteq> [] \<and> trim (back' c) \<noteq> [])
          (ownCards (cardsByDeck s) (d_id d)))
       (decks s)"


section \<open>Example states\<close>

text \<open>The base store with one card, in a world with an empty storage slot.\<close>

definition cardStore :: StoreState where
  "cardStore =
     baseStore\<lparr>cardsByDeck :=
       [(js ''deck-existing'',
          [\<lparr>c_id = js ''card-1'', front = js ''Front prompt'',
            back' = js ''Back response''\<rparr>])]\<rparr>"

definition cardWorld :: World where
  "cardWorld = \<lparr>inMemoryStore = cardStore, storage = Available None\<rparr>"

text \<open>The base store with the last deck remembered, loaded from its own document.\<close>

definition rememberingStore :: StoreState where
  "rememberingStore =
     baseStore\<lparr>settings :=
       \<lparr>defaultStudyMode = Ordered, rememberLastDeck = True, reducedMotion = False,
        lastDeckId = Some (js ''deck-existing'')\<rparr>\<rparr>"

definition rememberingWorld :: World where
  "rememberingWorld =
     \<lparr>inMemoryStore = rememberingStore,
      storage = Available (Some (Parsed (asRaw rememberingStore)))\<rparr>"

definition savedBaseWorld :: World where
  "savedBaseWorld =
     \<lparr>inMemoryStore = baseStore, storage = Available (Some (Parsed (asRaw baseStore)))\<rparr>"



text \<open>A store whose only deck has the id "constructor", with its card list; and the
  same deck without a card list.\<close>

definition constructorStore :: StoreState where
  "constructorStore =
     \<lparr>decks =
        [\<lparr>d_id = js ''constructor'', title = js ''Calm Flow'', description = None,
          createdAt = BASE_TIMESTAMP, updatedAt = BASE_TIMESTAMP\<rparr>],
      cardsByDeck =
        [(js ''constructor'',
            [\<lparr>c_id = js ''card-1'', front = js ''Front'', back' = js ''Back''\<rparr>])],
      settings = defaultSettings\<rparr>"


definition bareConstructorStore :: StoreState where
  "bareConstructorStore = constructorStore\<lparr>cardsByDeck := []\<rparr>"

text \<open>The input and the generated id of the repository's deck creation test.\<close>

definition calmInput :: CreateDeckInput where
  "calmInput = \<lparr>cd_title = js ''  Calm Flow  '', cd_description = Some (js ''  steady focus  '')\<rparr>"

definition mockId :: jsstring where
  "mockId = js ''00000000-0000-0000-0000-00000000de01''"

definition calmDeck :: Deck where
  "calmDeck =
     \<lparr>d_id = mockId, title = js ''Calm Flow'', description = Some (js ''steady focus''),
      createdAt = nowExample, updatedAt = nowExample\<rparr>"

text \<open>A valid stored document without decks, and fifteen distinct generated ids.\<close>

definition emptyDocument :: json where
  "emptyDocument = JObject [(js ''decks'', JArray []), (js ''cardsByDeck'', JObject [])]"

definition exampleIds :: "nat \<Rightarrow> jsstring" where
  "exampleIds i = js ''id-'' @ [0x61 + of_nat i]"

section \<open>Properties of the normalizer\<close>

lemma dropWhile_rev_prefix: "\<exists>zs. xs = rev (dropWhile P (rev xs)) @ zs"
proof -
  have "xs = rev (takeWhile P (rev xs) @ dropWhile P (rev xs))"
    by (simp only: takeWhile_dropWhile_id rev_rev_ident)
  then have "xs = rev (dropWhile P (rev xs)) @ rev (takeWhile P (rev xs))"
    by (simp only: rev_append)
  then show ?thesis by blast
qed

lemma dropWhile_trim: "dropWhile isWhiteSpace (trim s) = trim s"
proof (cases "trim s = []")
  case True
  then show ?thesis by simp
next
  case False
  define t where "t = dropWhile isWhiteSpace s"
  obtain zs where z: "t = trim s @ zs"
    using dropWhile_rev_prefix [of t isWhiteSpace] by (auto simp: trim_def t_def)
  with False have "t \<noteq> []" and hd: "hd (trim s) = hd t" by auto
  then have "\<not> isWhiteSpace (hd t)" unfolding t_def by (metis hd_dropWhile)
  with hd False show ?thesis by (cases "trim s") auto
qed

lemma trim_idem: "trim (trim s) = trim s"
proof -
  have "trim (trim s) = rev (dropWhile isWhiteSpace (rev (trim s)))"
    by (simp add: trim_def [of "trim s"] dropWhile_trim)
  also have "\<dots> = trim s" by (simp add: trim_def)
  finally show ?thesis .
qed

lemma trimOrUndefined_idem: "trimOrUndefined (trimOrUndefined x) = trimOrUndefined x"
  by (cases x) (simp_all add: trimOrUndefined_def trim_idem)





lemma normalizeDeck_id: "normalizeDeck H d = Inr d' \<Longrightarrow> d_id d' = d_id d"
  by (auto simp: normalizeDeck_def split: sum.splits)


lemma map_of_fold_update:
  "map_of (fold (\<lambda>d acc. AList.update (k d) (g (k d)) acc) ds acc0) x =
     (if x \<in> k ` set ds then Some (g x) else map_of acc0 x)"
  by (induction ds arbitrary: acc0) (auto simp: update_conv')

lemma cardsOf_Inr:
  "cardsOf cbd k = Inr cs \<longleftrightarrow>
     (map_of cbd k \<noteq> None \<or> \<not> inheritedMember k) \<and> cs = ownCards cbd k"
  by (auto simp: cardsOf_def ownCards_def split: option.splits)

lemma cardsOf_Inl:
  "cardsOf cbd k = Inl e \<longleftrightarrow> map_of cbd k = None \<and> inheritedMember k \<and> e = TypeError"
  by (auto simp: cardsOf_def split: option.splits)

lemma rebuildFrom_eq:
  "rebuildFrom old ds acc =
     (if list_all (\<lambda>d. map_of old (d_id d) \<noteq> None \<or> \<not> inheritedMember (d_id d)) ds
      then Inr (fold (\<lambda>deck acc. AList.update (d_id deck)
                  (map normalizeCard (ownCards old (d_id deck))) acc) ds acc)
      else Inl TypeError)"
proof (induction ds arbitrary: acc)
  case Nil
  show ?case by simp
next
  case (Cons d ds)
  show ?case
  proof (cases "cardsOf old (d_id d)")
    case (Inl e)
    then have "map_of old (d_id d) = None" "inheritedMember (d_id d)" "e = TypeError"
      by (simp_all add: cardsOf_Inl)
    with Inl show ?thesis by simp
  next
    case (Inr cs)
    then have "map_of old (d_id d) \<noteq> None \<or> \<not> inheritedMember (d_id d)"
      and "cs = ownCards old (d_id d)"
      by (simp_all add: cardsOf_Inr)
    with Inr show ?thesis by (simp add: Cons.IH)
  qed
qed

lemma rebuildCards_eq:
  "rebuildCards old ds =
     (if list_all (\<lambda>d. map_of old (d_id d) \<noteq> None \<or> \<not> inheritedMember (d_id d)) ds
      then Inr (builtCards old ds) else Inl TypeError)"
  by (simp add: rebuildCards_def builtCards_def rebuildFrom_eq)

lemma map_of_builtCards:
  "map_of (builtCards old ds) k =
     (if k \<in> d_id ` set ds then Some (map normalizeCard (ownCards old k)) else None)"
  unfolding builtCards_def
  by (simp add: map_of_fold_update [where k = d_id and g = "\<lambda>i. map normalizeCard (ownCards old i)"])




lemma normalizeStore_Inr:
  "normalizeStore H s = Inr n \<longleftrightarrow>
     (\<exists>ds. mapE (normalizeDeck H) (decks s) = Inr ds \<and>
        list_all (\<lambda>d. map_of (cardsByDeck s) (d_id d) \<noteq> None \<or> \<not> inheritedMember (d_id d)) ds \<and>
        n = \<lparr>decks = ds, cardsByDeck = builtCards (cardsByDeck s) ds,
             settings = normalizeSettings (Some (asPartial (settings s)))\<rparr>)"
  by (auto simp: normalizeStore_def rebuildCards_eq split: sum.splits if_splits)





lemma mapE_list_all2: "mapE f xs = Inr ys \<Longrightarrow> list_all2 (\<lambda>x y. f x = Inr y) xs ys"
  by (induction xs arbitrary: ys) (auto split: sum.splits)

lemma mapE_normalizeDeck_ids:
  "mapE (normalizeDeck H) ds = Inr ds' \<Longrightarrow> map d_id ds' = map d_id ds"
  by (drule mapE_list_all2, induction rule: list_all2_induct) (auto dest: normalizeDeck_id)




subsection \<open>The example host\<close>

lemma of_char_word_inj: "(of_char c :: 16 word) = of_char d \<Longrightarrow> c = d"
proof -
  assume a: "(of_char c :: 16 word) = of_char d"
  have w: "(of_char c :: 16 word) = word_of_nat (of_char c)" for c
    by (simp add: of_char_def)
  have lt: "(of_char c :: nat) < 2 ^ 16" for c
  proof -
    have "(of_char c :: nat) < 256" by simp
    moreover have "(256::nat) < 2 ^ 16" by simp
    ultimately show ?thesis by (rule less_trans)
  qed
  have "unat (of_char c :: 16 word) = of_char c" for c
    unfolding w using lt [of c] by (simp add: unat_of_nat)
  with a have "(of_char c :: nat) = of_char d" by metis
  then show ?thesis by simp
qed

lemma js_eq_iff: "js a = js b \<longleftrightarrow> a = b"
  unfolding js_def by (rule inj_map_eq_map) (auto intro!: injI dest: of_char_word_inj)

lemma js_Nil_iff: "js a = [] \<longleftrightarrow> a = []"
  by (simp add: js_def)

lemma Nil_js_iff: "[] = js a \<longleftrightarrow> a = []"
  by (auto simp: js_def)

lemma exampleHost_ok: "host_ok exampleHost"
  by (auto simp: host_ok_def roundTrips_def exampleHost_def js_eq_iff js_Nil_iff Nil_js_iff
      split: if_splits)



lemma normalizeStore_bareConstructorStore:
  "normalizeStore exampleHost bareConstructorStore = Inl TypeError"
  by code_simp


section \<open>CSV import\<close>

lemma parseCsv_csvExample:
  "parseCsv csvExample =
     Inr [\<lparr>cc_front = js ''Greeting, friendly'', cc_back = js ''Hello, \"friend\"!''\<rparr>,
          \<lparr>cc_front = js ''Affirmation'', cc_back = js ''You are capable''\<rparr>]"
  by code_simp

lemma sanitizedCards_csvExample:
  "sanitizedCards
     [\<lparr>cc_front = js ''Greeting, friendly'', cc_back = js ''Hello, \"friend\"!''\<rparr>,
      \<lparr>cc_front = js ''Affirmation'', cc_back = js ''You are capable''\<rparr>] =
     [\<lparr>cc_front = js ''Greeting, friendly'', cc_back = js ''Hello, \"friend\"!''\<rparr>,
      \<lparr>cc_front = js ''Affirmation'', cc_back = js ''You are capable''\<rparr>]"
  by code_simp

text \<open>
  C8. The CSV text with the header \<open>front,back\<close> and the two data lines of the example
  parses to exactly two rows, and the import of a file with this text previews
  exactly two cards: "Greeting, friendly" / "Hello, "friend"!" (the doubled quotes
  undone, the commas kept) and "Affirmation" / "You are capable".
\<close>

theorem csv_import_example:
  "parseCsv csvExample =
     Inr [\<lparr>cc_front = js ''Greeting, friendly'', cc_back = js ''Hello, \"friend\"!''\<rparr>,
          \<lparr>cc_front = js ''Affirmation'', cc_back = js ''You are capable''\<rparr>] \<and>
   map_sum id cards (parseCsvFile csvExample name) =
     Inr [\<lparr>cc_front = js ''Greeting, friendly'', cc_back = js ''Hello, \"friend\"!''\<rparr>,
          \<lparr>cc_front = js ''Affirmation'', cc_back = js ''You are capable''\<rparr>]"
  by (simp add: parseCsvFile_def parseCsv_csvExample sanitizedCards_csvExample Let_def)

section \<open>JSON import\<close>

lemma sanitizedCards_eq:
  "sanitizedCards raw = map trimmedContent (filter (\<lambda>c. \<not> blankCard c) raw)"
  by (induction raw) (auto simp: sanitizedCards_def trimmedContent_def blankCard_def)

text \<open>
  C9 (amended). For every JSON import payload the import schema accepts, the cards
  that are blank (front or back empty after trimming) are dropped and the others are
  kept, trimmed and in order. The import is accepted with these cards unless every
  card is blank; then it is rejected: "No cards with valid front/back content were
  found".
\<close>

theorem json_import_blank_cards:
  assumes "z_parse (importJsonSchema (Some j)) = Inr parsed"
  shows "parseJson (Parsed j) name =
           (if list_all blankCard (ip_cards parsed) then Inl NoValidCards
            else Inr \<lparr>deckTitle = (if id_title (ip_deck parsed) = [] then DEFAULT_DECK_TITLE
                                    else id_title (ip_deck parsed)),
                      deckDescription = id_description (ip_deck parsed),
                      cards = map trimmedContent (filter (\<lambda>c. \<not> blankCard c) (ip_cards parsed)),
                      source = SourceJson, filename = name\<rparr>)"
proof -
  have "(filter (\<lambda>c. \<not> blankCard c) (ip_cards parsed) = []) = list_all blankCard (ip_cards parsed)"
    by (auto simp: filter_empty_conv list_all_iff)
  then show ?thesis
    using assms by (simp add: parseJson_def sanitizedCards_eq Let_def)
qed

text \<open>
  A payload the schema accepts whose only card has a blank front is rejected.
\<close>

theorem json_import_all_blank_rejected:
  "z_parse (importJsonSchema (Some blankPayload)) =
     Inr \<lparr>ip_deck = \<lparr>id_id = None, id_title = js ''Verbs'', id_description = None\<rparr>,
          ip_cards = [\<lparr>cc_front = js ''  '', cc_back = js ''to run'', ic_id = None\<rparr>]\<rparr> \<and>
   parseJson (Parsed blankPayload) (js ''verbs.json'') = Inl NoValidCards"
  by code_simp

lemma importJsonSchema_mixedPayload: "z_parse (importJsonSchema (Some mixedPayload)) =
     Inr \<lparr>ip_deck = \<lparr>id_id = None, id_title = js ''Verbs'', id_description = None\<rparr>,
          ip_cards = [\<lparr>cc_front = js ''  '', cc_back = js ''to run'', ic_id = None\<rparr>,
                      \<lparr>cc_front = js '' correr '', cc_back = js ''to run'', ic_id = None\<rparr>]\<rparr>"
  by code_simp

theorem json_import_blank_cards_witness:
  "z_parse (importJsonSchema (Some mixedPayload)) =
     Inr \<lparr>ip_deck = \<lparr>id_id = None, id_title = js ''Verbs'', id_description = None\<rparr>,
          ip_cards = [\<lparr>cc_front = js ''  '', cc_back = js ''to run'', ic_id = None\<rparr>,
                      \<lparr>cc_front = js '' correr '', cc_back = js ''to run'', ic_id = None\<rparr>]\<rparr> \<and>
   parseJson (Parsed mixedPayload) (js ''verbs.json'') =
     Inr \<lparr>deckTitle = js ''Verbs'', deckDescription = None,
          cards = [\<lparr>cc_front = js ''correr'', cc_back = js ''to run''\<rparr>],
          source = SourceJson, filename = js ''verbs.json''\<rparr>"
proof -
  have "parseJson (Parsed mixedPayload) (js ''verbs.json'') =
     Inr \<lparr>deckTitle = js ''Verbs'', deckDescription = None,
          cards = [\<lparr>cc_front = js ''correr'', cc_back = js ''to run''\<rparr>],
          source = SourceJson, filename = js ''verbs.json''\<rparr>"
    unfolding json_import_blank_cards [OF importJsonSchema_mixedPayload, of "js ''verbs.json''"]
    by code_simp
  with importJsonSchema_mixedPayload show ?thesis by simp
qed

section \<open>Schema validator\<close>


lemma fst_z_ap: "fst (z_ap pf pa) = fst pf @ fst pa"
  by (simp add: z_ap_def)


lemma fst_z_ok: "fst (z_ok v) = []"
  by (simp add: z_ok_def)















subsection \<open>Settings\<close>

lemma z_catch_studyMode:
  "z_catch (defaultStudyMode defaultSettings) (z_studyMode x) = z_ok (studyModeOrDefault x)"
  by (cases x rule: stringOrNullish.cases)
     (auto simp: z_catch_def z_studyMode_def z_ok_def z_invalid_def studyModeOrDefault_def
        defaultSettings_def js_eq_iff split: json.splits)

lemma z_catch_boolean: "z_catch d (z_boolean x) = z_ok (booleanOr d x)"
  by (cases x rule: stringOrNullish.cases)
     (auto simp: z_catch_def z_boolean_def z_ok_def z_invalid_def booleanOr_def split: json.splits)

lemma lastDeckId_schema:
  "stringOrNullish x \<Longrightarrow>
     z_transform (\<lambda>v. case v of None \<Rightarrow> None | Some w \<Rightarrow> w) (z_nullable (z_optional z_string) x) =
     z_ok (case x of Some (JString s) \<Rightarrow> Some s | _ \<Rightarrow> None)"
  by (cases x rule: stringOrNullish.cases)
     (auto simp: z_transform_def z_nullable_def z_optional_def z_string_def z_ok_def z_ap_def)

lemma settingsSchema_object:
  assumes "stringOrNullish (field kvs ''lastDeckId'')"
  shows "settingsSchema (Some (JObject kvs)) =
           ([], Some \<lparr>defaultStudyMode = studyModeOrDefault (field kvs ''defaultStudyMode''),
                       rememberLastDeck =
                         booleanOr (rememberLastDeck defaultSettings) (field kvs ''rememberLastDeck''),
                       reducedMotion =
                         booleanOr (reducedMotion defaultSettings) (field kvs ''reducedMotion''),
                       lastDeckId = (case field kvs ''lastDeckId'' of
                                       Some (JString s) \<Rightarrow> Some s | _ \<Rightarrow> None)\<rparr>)"
  by (simp add: settingsSchema_def z_catch_studyMode z_catch_boolean lastDeckId_schema [OF assms]
        z_ap_def z_ok_def mkSettings_def)

text \<open>
  C7 (amended). For every raw settings object whose \<open>lastDeckId\<close> is a string,
  \<open>null\<close> or missing, the schema succeeds without an issue, and each of
  \<open>defaultStudyMode\<close>, \<open>rememberLastDeck\<close> and \<open>reducedMotion\<close> is the given value
  when that is valid and its default otherwise, whatever the other properties are. An
  invalid \<open>defaultStudyMode\<close> becomes \<open>Ordered\<close>.
\<close>

theorem settings_fields_default_individually:
  assumes "stringOrNullish (field kvs ''lastDeckId'')"
  shows "settingsSchema (Some (JObject kvs)) =
           ([], Some \<lparr>defaultStudyMode = studyModeOrDefault (field kvs ''defaultStudyMode''),
                       rememberLastDeck =
                         booleanOr (rememberLastDeck defaultSettings) (field kvs ''rememberLastDeck''),
                       reducedMotion =
                         booleanOr (reducedMotion defaultSettings) (field kvs ''reducedMotion''),
                       lastDeckId = (case field kvs ''lastDeckId'' of
                                       Some (JString s) \<Rightarrow> Some s | _ \<Rightarrow> None)\<rparr>)"
  using assms by (rule settingsSchema_object)

theorem settings_fields_default_individually_witness:
  "stringOrNullish (field oddSettings ''lastDeckId'') \<and>
   settingsSchema (Some (JObject oddSettings)) =
     ([], Some \<lparr>defaultStudyMode = Ordered, rememberLastDeck = True, reducedMotion = False,
                 lastDeckId = Some (js ''deck-1'')\<rparr>)"
proof -
  have h: "stringOrNullish (field oddSettings ''lastDeckId'')"
    by code_simp
  have "([], Some \<lparr>defaultStudyMode = studyModeOrDefault (field oddSettings ''defaultStudyMode''),
                       rememberLastDeck =
                         booleanOr (rememberLastDeck defaultSettings) (field oddSettings ''rememberLastDeck''),
                       reducedMotion =
                         booleanOr (reducedMotion defaultSettings) (field oddSettings ''reducedMotion''),
                       lastDeckId = (case field oddSettings ''lastDeckId'' of
                                       Some (JString s) \<Rightarrow> Some s | _ \<Rightarrow> None)\<rparr>) =
     (([] :: issue list), Some \<lparr>defaultStudyMode = Ordered, rememberLastDeck = True, reducedMotion = False,
                 lastDeckId = Some (js ''deck-1'')\<rparr>)"
    by code_simp
  with settings_fields_default_individually [OF h] h show ?thesis by simp
qed

text \<open>
  A \<open>lastDeckId\<close> of the wrong type is not replaced by a default: the settings object
  and the whole store fail to validate.
\<close>

theorem settings_wrong_lastDeckId_fails:
  "settingsSchema (Some (JObject [(js ''lastDeckId'', JNumber 5)])) = ([InvalidType], None) \<and>
   z_parse (storeSchema exampleHost (Some badLastDeckStore)) = Inl (ZodError [InvalidType])"
  by code_simp

section \<open>Failing calls\<close>

lemma reserialize_error: "reserialize H x = Inl e \<Longrightarrow> e = RangeError"
  by (auto simp: reserialize_def split: option.splits)

lemma normalizeDeck_error: "normalizeDeck H d = Inl e \<Longrightarrow> e = RangeError"
  by (auto simp: normalizeDeck_def split: sum.splits dest: reserialize_error)

lemma mapE_error:
  assumes "\<And>x e. f x = Inl e \<Longrightarrow> e = c"
  shows "mapE f xs = Inl e \<Longrightarrow> e = c"
  by (induction xs arbitrary: e) (auto split: sum.splits dest: assms)

lemma mapE_normalizeDeck_error: "mapE (normalizeDeck H) ds = Inl e \<Longrightarrow> e = RangeError"
  by (erule mapE_error [rotated]) (rule normalizeDeck_error)

lemma normalizeStore_error: "normalizeStore H s = Inl e \<Longrightarrow> e = RangeError \<or> e = TypeError"
  by (auto simp: normalizeStore_def rebuildCards_eq split: sum.splits if_splits
      dest: mapE_normalizeDeck_error)

lemma z_parse_error: "z_parse r = Inl e \<Longrightarrow> \<exists>is. e = ZodError is"
  by (cases r) (auto simp: z_parse_def split: list.splits option.splits)

lemma persist_error: "persist H s st = Inl e \<Longrightarrow> \<exists>is. e = ZodError is"
  by (auto simp: persist_def split: Storage.splits sum.splits dest: z_parse_error)

lemma mutateStore_rejected:
  assumes "mutateStore H mutator w = (Inl e, w')" and "isRejection e"
  shows "w' = w"
  using assms
  by (auto simp: mutateStore_def split: sum.splits prod.splits
      dest!: normalizeStore_error persist_error)

lemma thrown_Some: "thrown r = (Some e, w') \<longleftrightarrow> r = (Inl e, w')"
  by (cases r) (auto simp: thrown_def split: sum.splits)

lemma find_None_getDeck: "getDeck w deckId = None \<longleftrightarrow>
    find (\<lambda>item. d_id item = deckId) (decks (snapshot w)) = None"
  by (simp add: getDeck_def loadStore_def)

text \<open>The conditions under which the calls are rejected.\<close>

lemma createDeck_blank_title:
  "trim (cd_title input) = [] \<Longrightarrow>
     createDeck H now newId input w = (Inl DeckTitleRequired, w)"
  by (simp add: createDeck_def)

lemma addCard_blank_text:
  "trim (ci_front input) = [] \<or> trim (ci_back input) = [] \<Longrightarrow>
     addCard H now newId deckId input w = (Inl CardFieldsRequired, w)"
  by (auto simp: addCard_def)

lemma unknown_deck:
  assumes "getDeck w deckId = None"
  shows "updateDeck H now deckId changes w = (Inl (DeckNotFound deckId), w)"
    and "deleteDeck H deckId w = (Inl (DeckNotFound deckId), w)"
    and "trim (ci_front input) \<noteq> [] \<Longrightarrow> trim (ci_back input) \<noteq> [] \<Longrightarrow>
           addCard H now newId deckId input w = (Inl (DeckNotFound deckId), w)"
    and "updateCard H now deckId cardId cardChanges w = (Inl (DeckNotFound deckId), w)"
    and "deleteCard H now deckId cardId w = (Inl (DeckNotFound deckId), w)"
  using assms
  by (simp_all add: find_None_getDeck updateDeck_def deleteDeck_def addCard_def updateCard_def
        deleteCard_def mutateStore_def)

lemma updateDeck_blank_title:
  "getDeck w deckId \<noteq> None \<Longrightarrow> ud_title changes = Some t \<Longrightarrow> trim t = [] \<Longrightarrow>
     updateDeck H now deckId changes w = (Inl DeckTitleEmpty, w)"
  by (auto simp: find_None_getDeck updateDeck_def mutateStore_def)

lemma unknown_card:
  assumes "getDeck w deckId \<noteq> None"
      and "listCards w deckId = Inr cs"
      and "find (\<lambda>item. c_id item = cardId) cs = None"
  shows "updateCard H now deckId cardId cardChanges w = (Inl (CardNotFound cardId deckId), w)"
    and "deleteCard H now deckId cardId w = (Inl (CardNotFound cardId deckId), w)"
proof -
  from assms(1) obtain deck where d: "find (\<lambda>item. d_id item = deckId) (decks (snapshot w)) = Some deck"
    by (auto simp: find_None_getDeck)
  then have "d_id deck = deckId"
    by (auto simp: find_Some_iff)
  with assms(2) have "cardsOf (cardsByDeck (snapshot w)) (d_id deck) = Inr cs"
    by (simp add: listCards_def loadStore_def)
  with d assms(3)
  show "updateCard H now deckId cardId cardChanges w = (Inl (CardNotFound cardId deckId), w)"
    and "deleteCard H now deckId cardId w = (Inl (CardNotFound cardId deckId), w)"
    by (simp_all add: updateCard_def deleteCard_def mutateStore_def Let_def)
qed

lemma updateCard_blank_text:
  assumes "getDeck w deckId \<noteq> None"
      and "listCards w deckId = Inr cs"
      and "find (\<lambda>item. c_id item = cardId) cs \<noteq> None"
  shows "uc_front cardChanges = Some f \<Longrightarrow> trim f = [] \<Longrightarrow>
           updateCard H now deckId cardId cardChanges w = (Inl CardFrontEmpty, w)"
    and "uc_front cardChanges = None \<or> (\<exists>f. uc_front cardChanges = Some f \<and> trim f \<noteq> []) \<Longrightarrow>
         uc_back cardChanges = Some b \<Longrightarrow> trim b = [] \<Longrightarrow>
           updateCard H now deckId cardId cardChanges w = (Inl CardBackEmpty, w)"
proof -
  from assms(1) obtain deck where d: "find (\<lambda>item. d_id item = deckId) (decks (snapshot w)) = Some deck"
    by (auto simp: find_None_getDeck)
  then have "d_id deck = deckId"
    by (auto simp: find_Some_iff)
  with assms(2) have cs: "cardsOf (cardsByDeck (snapshot w)) (d_id deck) = Inr cs"
    by (simp add: listCards_def loadStore_def)
  from assms(3) obtain c where c: "find (\<lambda>item. c_id item = cardId) cs = Some c"
    by auto
  show "uc_front cardChanges = Some f \<Longrightarrow> trim f = [] \<Longrightarrow>
           updateCard H now deckId cardId cardChanges w = (Inl CardFrontEmpty, w)"
    using d cs c by (simp add: updateCard_def mutateStore_def Let_def)
  show "uc_front cardChanges = None \<or> (\<exists>f. uc_front cardChanges = Some f \<and> trim f \<noteq> []) \<Longrightarrow>
         uc_back cardChanges = Some b \<Longrightarrow> trim b = [] \<Longrightarrow>
           updateCard H now deckId cardId cardChanges w = (Inl CardBackEmpty, w)"
    using d cs c by (auto simp: updateCard_def mutateStore_def Let_def)
qed

text \<open>
  C2. For each of createDeck, updateDeck, deleteDeck, addCard, updateCard and
  deleteCard: when the call fails because a required text is empty after trimming or
  because a deck or card id is unknown, the state after the call (the in-memory store
  with its decks, cards and settings, and the storage) is the state before it.
\<close>

theorem mutation_atomic_on_failure:
  assumes "isMutation op" and "perform H op w = (Some e, w')" and "isRejection e"
  shows "w' = w"
proof (cases op)
  case (CreateDeck now newId input)
  with assms show ?thesis
    by (auto simp: thrown_Some createDeck_def Let_def split: if_splits
        dest: mutateStore_rejected)
next
  case (UpdateDeck now deckId changes)
  with assms show ?thesis
    by (auto simp: thrown_Some updateDeck_def dest: mutateStore_rejected)
next
  case (DeleteDeck deckId)
  with assms show ?thesis
    by (auto simp: thrown_Some deleteDeck_def dest: mutateStore_rejected)
next
  case (AddCard now newId deckId input)
  with assms show ?thesis
    by (auto simp: thrown_Some addCard_def Let_def split: if_splits
        dest: mutateStore_rejected)
next
  case (UpdateCard now deckId cardId changes)
  with assms show ?thesis
    by (auto simp: thrown_Some updateCard_def dest: mutateStore_rejected)
next
  case (DeleteCard now deckId cardId)
  with assms show ?thesis
    by (auto simp: thrown_Some deleteCard_def dest: mutateStore_rejected)
qed (use assms in simp_all)

subsection \<open>A rejected card update\<close>

lemma updateCard_blank_back:
  "perform exampleHost
     (UpdateCard nowExample (js ''deck-existing'') (js ''card-1'')
        \<lparr>uc_front = Some (js ''New front''), uc_back = Some (js ''  '')\<rparr>) cardWorld =
   (Some CardBackEmpty, cardWorld)"
  by code_simp

theorem mutation_atomic_on_failure_witness:
  "isMutation (UpdateCard nowExample (js ''deck-existing'') (js ''card-1'')
        \<lparr>uc_front = Some (js ''New front''), uc_back = Some (js ''  '')\<rparr>) \<and>
   perform exampleHost
     (UpdateCard nowExample (js ''deck-existing'') (js ''card-1'')
        \<lparr>uc_front = Some (js ''New front''), uc_back = Some (js ''  '')\<rparr>) cardWorld =
   (Some CardBackEmpty, cardWorld) \<and>
   isRejection CardBackEmpty"
  using mutation_atomic_on_failure [OF _ updateCard_blank_back] updateCard_blank_back
  by simp

section \<open>The settings invariant\<close>

lemma normalizeSettings_invariant: "lastDeckInvariant (normalizeSettings p)"
  by (simp add: normalizeSettings_def lastDeckInvariant_def Let_def)

lemma normalizeStore_settings:
  "normalizeStore H s = Inr n \<Longrightarrow> settings n = normalizeSettings (Some (asPartial (settings s)))"
  by (auto simp: normalizeStore_def split: sum.splits)

lemma normalizeStore_invariant:
  "normalizeStore H s = Inr n \<Longrightarrow> lastDeckInvariant (settings n)"
  by (auto simp: normalizeStore_def normalizeSettings_invariant split: sum.splits)

lemma mutateStore_invariant:
  assumes "lastDeckInvariant (settings (inMemoryStore w))"
  shows "lastDeckInvariant (settings (inMemoryStore (snd (mutateStore H mutator w))))"
  using assms
  by (auto simp: mutateStore_def split: sum.splits prod.splits dest: normalizeStore_invariant)

lemma seed_invariant: "seed H now gen st = (Inr s, st') \<Longrightarrow> lastDeckInvariant (settings s)"
  by (auto simp: seed_def split: sum.splits dest: normalizeStore_invariant)

lemma hydrate_invariant:
  "hydrateFromStorage H now gen st = (Inr s, st') \<Longrightarrow> lastDeckInvariant (settings s)"
  by (auto simp: hydrateFromStorage_def tryLoad_def
      split: Storage.splits option.splits sum.splits item.splits if_splits prod.splits
      dest: normalizeStore_invariant seed_invariant)

lemma saveStore_invariant:
  assumes "lastDeckInvariant (settings (inMemoryStore w))"
  shows "lastDeckInvariant (settings (inMemoryStore (snd (saveStore H store w))))"
  using assms
  by (auto simp: saveStore_def split: sum.splits dest: normalizeStore_invariant)

lemma rehydrate_invariant:
  assumes "lastDeckInvariant (settings (inMemoryStore w))"
  shows "lastDeckInvariant (settings (inMemoryStore (snd (rehydrateInMemory H now gen w))))"
  using assms
  by (auto simp: rehydrateInMemory_def split: sum.splits prod.splits dest: hydrate_invariant)

lemma snd_thrown: "snd (thrown r) = snd r"
  by (simp add: thrown_def)

lemma perform_invariant:
  assumes "lastDeckInvariant (settings (inMemoryStore w))"
  shows "lastDeckInvariant (settings (inMemoryStore (snd (perform H op w))))"
proof (cases op)
  case (CreateDeck now newId input)
  with assms show ?thesis
    by (simp add: snd_thrown createDeck_def Let_def mutateStore_invariant)
next
  case (AddCard now newId deckId input)
  with assms show ?thesis
    by (simp add: snd_thrown addCard_def Let_def mutateStore_invariant)
qed (use assms in \<open>simp_all add: snd_thrown updateDeck_def deleteDeck_def updateCard_def
      deleteCard_def updateSettings_def setLastDeckId_def mutateStore_invariant
      saveStore_invariant rehydrate_invariant\<close>)

lemma reachable_invariant:
  "reachable H w \<Longrightarrow> lastDeckInvariant (settings (inMemoryStore w))"
proof (induction rule: reachable.induct)
  case (start now gen st store st')
  then show ?case by (auto dest: hydrate_invariant)
next
  case (step w op e w')
  from perform_invariant [OF step.IH, of H op] step.hyps(2) show ?case by simp
next
  case (tamper w st)
  then show ?case by simp
qed

lemma mutateStore_committed:
  "mutateStore H mutator w = (Inr r, w') \<Longrightarrow>
     \<exists>draft. mutator (snapshot w) = Inr (draft, r) \<and>
       normalizeStore H draft = Inr (inMemoryStore w')"
  by (auto simp: mutateStore_def split: sum.splits prod.splits)

text \<open>
  C5. In every reachable state \<open>lastDeckId\<close> is absent whenever \<open>rememberLastDeck\<close> is
  false. A call \<open>updateSettings({ rememberLastDeck: false })\<close> that returns leaves
  \<open>rememberLastDeck\<close> false and \<open>lastDeckId\<close> absent, in the store and in the settings
  it returns; and a call of \<open>setLastDeckId\<close> that returns while \<open>rememberLastDeck\<close> is
  false leaves \<open>lastDeckId\<close> absent.
\<close>

theorem lastDeckId_invariant:
  "(reachable H w \<longrightarrow> lastDeckInvariant (settings (inMemoryStore w))) \<and>
   (updateSettings H rememberOff w = (Inr s, w') \<longrightarrow>
      \<not> rememberLastDeck (settings (inMemoryStore w')) \<and>
      lastDeckId (settings (inMemoryStore w')) = None \<and> lastDeckId s = None) \<and>
   (\<not> rememberLastDeck (settings (inMemoryStore w)) \<and>
    setLastDeckId H deckId w = (Inr (), w'') \<longrightarrow>
      lastDeckId (settings (inMemoryStore w'')) = None)"
proof (intro conjI impI)
  assume "reachable H w"
  then show "lastDeckInvariant (settings (inMemoryStore w))" by (rule reachable_invariant)
next
  assume a: "updateSettings H rememberOff w = (Inr s, w')"
  then obtain draft where d: "draft = (snapshot w)\<lparr>settings := s\<rparr>"
    and s: "s = (let next0 = normalizeSettings (Some (spreadSettings (settings (snapshot w)) rememberOff))
                 in if \<not> rememberLastDeck next0 then next0\<lparr>lastDeckId := None\<rparr> else next0)"
    and n: "normalizeStore H draft = Inr (inMemoryStore w')"
    unfolding updateSettings_def by (auto simp: Let_def dest!: mutateStore_committed)
  from s have off: "\<not> rememberLastDeck s" "lastDeckId s = None"
    by (auto simp: Let_def normalizeSettings_def spreadSettings_def rememberOff_def overlay_def)
  from normalizeStore_settings [OF n] d
  have "settings (inMemoryStore w') = normalizeSettings (Some (asPartial s))"
    by simp
  with off show "\<not> rememberLastDeck (settings (inMemoryStore w'))"
    and "lastDeckId (settings (inMemoryStore w')) = None" and "lastDeckId s = None"
    by (auto simp: normalizeSettings_def asPartial_def Let_def)
next
  assume "\<not> rememberLastDeck (settings (inMemoryStore w)) \<and>
    setLastDeckId H deckId w = (Inr (), w'')"
  then obtain draft where "normalizeStore H draft = Inr (inMemoryStore w'')"
    and "\<not> rememberLastDeck (settings draft)"
    unfolding setLastDeckId_def by (auto simp: snapshot_def dest!: mutateStore_committed)
  then show "lastDeckId (settings (inMemoryStore w'')) = None"
    by (auto simp: normalizeSettings_def asPartial_def Let_def dest!: normalizeStore_settings)
qed

subsection \<open>Switching off the remembered deck\<close>

lemma hydrate_remembering:
  "hydrateFromStorage exampleHost nowExample exampleIds
     (Available (Some (Parsed (asRaw rememberingStore)))) =
   (Inr rememberingStore, Available (Some (Parsed (asRaw rememberingStore))))"
  by code_simp

lemma reachable_rememberingWorld: "reachable exampleHost rememberingWorld"
  unfolding rememberingWorld_def by (rule reachable.start) (rule hydrate_remembering)

lemma updateSettings_rememberOff:
  "updateSettings exampleHost rememberOff rememberingWorld =
     (Inr defaultSettings, savedBaseWorld)"
  by code_simp

lemma setLastDeckId_off:
  "\<not> rememberLastDeck (settings (inMemoryStore savedBaseWorld)) \<and>
   setLastDeckId exampleHost (Some (js ''deck-existing'')) savedBaseWorld = (Inr (), savedBaseWorld)"
  by code_simp

theorem lastDeckId_invariant_witness:
  "reachable exampleHost rememberingWorld \<and>
   lastDeckInvariant (settings (inMemoryStore rememberingWorld)) \<and>
   lastDeckId (settings (inMemoryStore rememberingWorld)) = Some (js ''deck-existing'') \<and>
   updateSettings exampleHost rememberOff rememberingWorld = (Inr defaultSettings, savedBaseWorld) \<and>
   lastDeckId (settings (inMemoryStore savedBaseWorld)) = None \<and>
   lastDeckId defaultSettings = None \<and>
   \<not> rememberLastDeck (settings (inMemoryStore savedBaseWorld)) \<and>
   setLastDeckId exampleHost (Some (js ''deck-existing'')) savedBaseWorld = (Inr (), savedBaseWorld)"
proof -
  note inv = lastDeckId_invariant [where H = exampleHost and w = rememberingWorld
      and s = defaultSettings and w' = savedBaseWorld]
  note off = lastDeckId_invariant [where H = exampleHost and w = savedBaseWorld
      and deckId = "Some (js ''deck-existing'')" and w'' = savedBaseWorld]
  from inv reachable_rememberingWorld
  have a: "lastDeckInvariant (settings (inMemoryStore rememberingWorld))" by blast
  from inv updateSettings_rememberOff
  have b: "lastDeckId (settings (inMemoryStore savedBaseWorld)) = None"
    and c: "lastDeckId defaultSettings = None"
    by blast+
  have d: "lastDeckId (settings (inMemoryStore rememberingWorld)) = Some (js ''deck-existing'')"
    by code_simp
  from off setLastDeckId_off
  have e: "lastDeckId (settings (inMemoryStore savedBaseWorld)) = None"
    by blast
  from reachable_rememberingWorld a d updateSettings_rememberOff b c setLastDeckId_off e
  show ?thesis by (intro conjI) blast+
qed

section \<open>Creating a deck\<close>

lemma normalizeDeck_title: "normalizeDeck H d = Inr d' \<Longrightarrow> title d' = trim (title d)"
  by (auto simp: normalizeDeck_def split: sum.splits)

lemma mapE_normalizeDeck_titles:
  "mapE (normalizeDeck H) ds = Inr ds' \<Longrightarrow> map title ds' = map (\<lambda>d. trim (title d)) ds"
  by (drule mapE_list_all2, induction rule: list_all2_induct) (auto dest: normalizeDeck_title)

lemma normalizeStore_ids:
  "normalizeStore H s = Inr n \<Longrightarrow> map d_id (decks n) = map d_id (decks s)"
  by (auto simp: normalizeStore_def split: sum.splits dest: mapE_normalizeDeck_ids)

lemma normalizeStore_titles:
  "normalizeStore H s = Inr n \<Longrightarrow> map title (decks n) = map (\<lambda>d. trim (title d)) (decks s)"
  by (auto simp: normalizeStore_def split: sum.splits dest: mapE_normalizeDeck_titles)

lemma normalizeStore_cards:
  "normalizeStore H s = Inr n \<Longrightarrow> cardsByDeck n = builtCards (cardsByDeck s) (decks n)"
  by (auto simp: normalizeStore_Inr)

lemma normalizeStore_lookup:
  assumes "normalizeStore H s = Inr n"
  shows "map_of (cardsByDeck n) k =
     (if k \<in> set (map d_id (decks s)) then Some (map normalizeCard (ownCards (cardsByDeck s) k))
      else None)"
proof -
  have "set (map d_id (decks n)) = set (map d_id (decks s))"
    using normalizeStore_ids [OF assms] by simp
  then show ?thesis
    by (simp add: normalizeStore_cards [OF assms] map_of_builtCards)
qed

lemma filter_insertSorted:
  "length (filter P (insertSorted c x ys)) = length (filter P (x # ys))"
  by (induction ys) auto

lemma filter_sortBy: "length (filter P (sortBy c xs)) = length (filter P xs)"
  by (induction xs) (auto simp: sortBy_def filter_insertSorted)

lemma set_insertSorted: "set (insertSorted c x ys) = insert x (set ys)"
  by (induction ys) auto

lemma set_sortBy: "set (sortBy c xs) = set xs"
  by (induction xs) (auto simp: sortBy_def set_insertSorted)

lemma length_filter_map: "length (filter P (map f xs)) = length (filter (\<lambda>x. P (f x)) xs)"
  by (induction xs) auto

lemma ownCards_update: "ownCards (AList.update k v al) k = v"
  by (simp add: ownCards_def update_conv')

text \<open>
  C3 (amended). When \<open>createDeck\<close> returns a deck, that deck has the generated id and
  the trimmed title; \<open>listDecks\<close> then contains a deck with this id and title, and
  one deck more with this title than there were decks whose trimmed title is this
  title (so exactly one if there was none); and \<open>listCards\<close> of the new id is empty.
\<close>

theorem createDeck_listed:
  assumes "createDeck H now newId input w = (Inr deck, w')"
  shows "d_id deck = newId \<and> title deck = trim (cd_title input) \<and>
         length (filter (\<lambda>d. title d = title deck) (listDecks H w')) =
           Suc (length (filter (\<lambda>d. trim (title d) = title deck) (decks (loadStore w)))) \<and>
         (\<exists>d. d \<in> set (listDecks H w') \<and> d_id d = newId \<and> title d = title deck) \<and>
         listCards w' newId = Inr []"
proof -
  define t where "t = trim (cd_title input)"
  define new where "new = \<lparr>d_id = newId, title = t,
      description = trimOrUndefined (cd_description input), createdAt = now, updatedAt = now\<rparr>"
  define draft where "draft = (snapshot w)\<lparr>decks := decks (snapshot w) @ [new],
      cardsByDeck := AList.update newId [] (cardsByDeck (snapshot w))\<rparr>"
  from assms have deck: "deck = new" and n: "normalizeStore H draft = Inr (inMemoryStore w')"
    unfolding createDeck_def draft_def new_def t_def
    by (auto simp: Let_def split: if_splits dest!: mutateStore_committed)
  let ?n = "inMemoryStore w'"
  have titles: "map title (decks ?n) = map (\<lambda>d. trim (title d)) (decks (snapshot w)) @ [t]"
    using normalizeStore_titles [OF n] by (simp add: draft_def new_def t_def trim_idem)
  have ids: "map d_id (decks ?n) = map d_id (decks (snapshot w)) @ [newId]"
    using normalizeStore_ids [OF n] by (simp add: draft_def new_def)
  have "length (filter (\<lambda>d. title d = t) (decks ?n)) =
        length (filter (\<lambda>x. x = t) (map title (decks ?n)))"
    by (simp only: length_filter_map)
  also have "\<dots> = Suc (length (filter (\<lambda>d. trim (title d) = t) (decks (snapshot w))))"
    unfolding titles by (simp add: comp_def)
  finally have count: "length (filter (\<lambda>d. title d = t) (listDecks H w')) =
      Suc (length (filter (\<lambda>d. trim (title d) = t) (decks (loadStore w))))"
    by (simp add: listDecks_def filter_sortBy loadStore_def snapshot_def)
  from titles ids have "decks ?n \<noteq> []" by auto
  then have "last (map title (decks ?n)) = t" "last (map d_id (decks ?n)) = newId"
    using titles ids by simp_all
  with \<open>decks ?n \<noteq> []\<close> have "last (decks ?n) \<in> set (decks ?n)"
    "d_id (last (decks ?n)) = newId" "title (last (decks ?n)) = t"
    by (simp_all add: last_map)
  then have ex: "\<exists>d. d \<in> set (listDecks H w') \<and> d_id d = newId \<and> title d = t"
    unfolding listDecks_def loadStore_def snapshot_def set_sortBy by blast
  have "newId \<in> set (map d_id (decks draft))" by (simp add: draft_def new_def)
  with normalizeStore_lookup [OF n, of newId]
  have "map_of (cardsByDeck ?n) newId = Some []"
    by (simp add: draft_def ownCards_update)
  then have cards: "listCards w' newId = Inr []"
    by (simp add: listCards_def loadStore_def snapshot_def cardsOf_def)
  from deck count ex cards show ?thesis by (simp add: new_def t_def)
qed

subsection \<open>The deck creation test and a repeated title\<close>

lemma createDeck_calm:
  "createDeck exampleHost nowExample mockId calmInput baseWorld =
     (Inr calmDeck, snd (createDeck exampleHost nowExample mockId calmInput baseWorld))"
  by code_simp

lemma listDecks_calm:
  "map title (listDecks exampleHost
      (snd (createDeck exampleHost nowExample mockId calmInput baseWorld))) =
     [js ''Calm Flow'', js ''Existing Deck'']"
  by code_simp

theorem createDeck_listed_witness:
  "fst (createDeck exampleHost nowExample mockId calmInput baseWorld) = Inr calmDeck \<and>
   map title (listDecks exampleHost
      (snd (createDeck exampleHost nowExample mockId calmInput baseWorld))) =
     [js ''Calm Flow'', js ''Existing Deck''] \<and>
   length (filter (\<lambda>d. title d = js ''Calm Flow'') (listDecks exampleHost
      (snd (createDeck exampleHost nowExample mockId calmInput baseWorld)))) = 1 \<and>
   listCards (snd (createDeck exampleHost nowExample mockId calmInput baseWorld)) mockId = Inr []"
proof -
  let ?w = "snd (createDeck exampleHost nowExample mockId calmInput baseWorld)"
  note listed = createDeck_listed [OF createDeck_calm]
  have none: "length (filter (\<lambda>d. trim (title d) = js ''Calm Flow'') (decks (loadStore baseWorld))) = 0"
    by code_simp
  have t: "title calmDeck = js ''Calm Flow''"
    by (simp add: calmDeck_def)
  from listed have "length (filter (\<lambda>d. title d = title calmDeck) (listDecks exampleHost ?w)) =
      Suc (length (filter (\<lambda>d. trim (title d) = title calmDeck) (decks (loadStore baseWorld))))"
    by (rule conjunct1 [OF conjunct2 [OF conjunct2]])
  then have one: "length (filter (\<lambda>d. title d = js ''Calm Flow'') (listDecks exampleHost ?w)) = 1"
    unfolding t none by simp
  from listed have cards: "listCards ?w mockId = Inr []"
    by (rule conjunct2 [OF conjunct2 [OF conjunct2 [OF conjunct2]]])
  have "fst (createDeck exampleHost nowExample mockId calmInput baseWorld) = Inr calmDeck"
    using createDeck_calm by (metis fst_conv)
  with listDecks_calm one cards show ?thesis
    by (intro conjI)
qed

text \<open>
  Creating a deck with the title of an existing deck succeeds, and \<open>listDecks\<close> then
  contains two decks with that title.
\<close>

theorem createDeck_same_title_twice:
  "fst (createDeck exampleHost nowExample mockId
          \<lparr>cd_title = js ''Existing Deck'', cd_description = None\<rparr> baseWorld) =
     Inr \<lparr>d_id = mockId, title = js ''Existing Deck'', description = None,
          createdAt = nowExample, updatedAt = nowExample\<rparr> \<and>
   map title (listDecks exampleHost
      (snd (createDeck exampleHost nowExample mockId
          \<lparr>cd_title = js ''Existing Deck'', cd_description = None\<rparr> baseWorld))) =
     [js ''Existing Deck'', js ''Existing Deck'']"
  by code_simp

section \<open>Validating the stores of the program\<close>

lemma field_Cons:
  "field ((js a, v) # kvs) b = (if a = b then Some v else field kvs b)"
  by (simp add: field_def js_eq_iff)

lemma field_Nil: "field [] b = None"
  by (simp add: field_def)

lemma field_append:
  "field (xs @ ys) b = (case field xs b of None \<Rightarrow> field ys b | Some v \<Rightarrow> Some v)"
  by (simp add: field_def map_add_def split: option.splits)

lemma z_string_min1_JString:
  "z_string_min1 (Some (JString s)) = ((if s = [] then [TooSmall] else []), Some s)"
  by (simp add: z_string_min1_def z_string_def z_ok_def)

lemma isoDateString_JString:
  "isoDateString H (Some (JString s)) =
     ((if s = [] then [TooSmall] else []) @
      (if Date_parse H s = None then [Custom (js ''Expected ISO 8601 date string'')] else []),
      Some s)"
  by (simp add: isoDateString_def z_string_min1_JString)

lemma description_schema:
  "z_transform trimOrUndefined
     (z_optional z_string
        (field (case x of None \<Rightarrow> [] | Some s \<Rightarrow> [(js ''description'', JString s)]) ''description'')) =
   z_ok (trimOrUndefined x)"
  by (cases x)
     (simp_all add: field_Cons field_Nil z_transform_def z_optional_def z_string_def z_ok_def
        z_ap_def)

lemma description_other:
  "k \<noteq> ''description'' \<Longrightarrow>
     field (case x of None \<Rightarrow> [] | Some s \<Rightarrow> [(js ''description'', JString s)]) k = None"
  by (cases x) (simp_all add: field_Cons field_Nil)

lemma deckSchema_deckJson:
  "deckSchema H (Some (deckJson d)) =
     ((if d_id d = [] then [TooSmall] else []) @ (if title d = [] then [TooSmall] else []) @
      (if createdAt d = [] then [TooSmall] else []) @
      (if Date_parse H (createdAt d) = None
       then [Custom (js ''Expected ISO 8601 date string'')] else []) @
      (if updatedAt d = [] then [TooSmall] else []) @
      (if Date_parse H (updatedAt d) = None
       then [Custom (js ''Expected ISO 8601 date string'')] else []),
      Some (validatedDeck d))"
proof -
  let ?kvs = "[(js ''id'', JString (d_id d)), (js ''title'', JString (title d))] @
       (case description d of None \<Rightarrow> [] | Some s \<Rightarrow> [(js ''description'', JString s)]) @
       [(js ''createdAt'', JString (createdAt d)), (js ''updatedAt'', JString (updatedAt d))]"
  have f: "field ?kvs ''id'' = Some (JString (d_id d))"
    "field ?kvs ''title'' = Some (JString (title d))"
    "field ?kvs ''createdAt'' = Some (JString (createdAt d))"
    "field ?kvs ''updatedAt'' = Some (JString (updatedAt d))"
    by (simp_all add: field_Cons field_append description_other field_Nil)
  have g: "field ?kvs ''description'' =
      field (case description d of None \<Rightarrow> [] | Some s \<Rightarrow> [(js ''description'', JString s)])
        ''description''"
    by (simp add: field_Cons field_append field_Nil split: option.splits)
  show ?thesis
    unfolding deckJson_def deckSchema_def
    by (simp only: json.case option.case f g description_schema z_string_min1_JString
          isoDateString_JString)
       (simp add: z_ap_def z_ok_def mkDeck_def validatedDeck_def)
qed

lemma cardSchema_cardJson:
  "cardSchema (Some (cardJson c)) =
     ((if c_id c = [] then [TooSmall] else []) @ (if front c = [] then [TooSmall] else []) @
      (if back' c = [] then [TooSmall] else []), Some c)"
  by (simp add: cardSchema_def cardJson_def field_Cons z_string_min1_JString z_ap_def z_ok_def
        mkCard_def)

lemma settingsSchema_settingsJson: "settingsSchema (Some (settingsJson s)) = z_ok s"
proof -
  let ?kvs = "[(js ''defaultStudyMode'', studyModeJson (defaultStudyMode s)),
        (js ''rememberLastDeck'', JBool (rememberLastDeck s)),
        (js ''reducedMotion'', JBool (reducedMotion s))] @
       (case lastDeckId s of None \<Rightarrow> [] | Some d \<Rightarrow> [(js ''lastDeckId'', JString d)])"
  have l: "stringOrNullish (field ?kvs ''lastDeckId'')"
    by (simp add: field_Cons field_append field_Nil split: option.splits)
  have "studyModeOrDefault (field ?kvs ''defaultStudyMode'') = defaultStudyMode s"
    by (cases "defaultStudyMode s")
       (simp_all add: field_Cons field_append studyModeOrDefault_def studyModeJson_def js_eq_iff)
  moreover have "booleanOr a (field ?kvs ''rememberLastDeck'') = rememberLastDeck s"
    "booleanOr a (field ?kvs ''reducedMotion'') = reducedMotion s" for a
    by (simp_all add: field_Cons field_append booleanOr_def)
  moreover have "(case field ?kvs ''lastDeckId'' of Some (JString s) \<Rightarrow> Some s | _ \<Rightarrow> None) =
      lastDeckId s"
    by (simp add: field_Cons field_append field_Nil split: option.splits)
  ultimately show ?thesis
    unfolding settingsJson_def settingsSchema_object [OF l]
    by (simp add: z_ok_def)
qed

lemma z_array_map:
  assumes "\<And>x. snd (schema (Some (enc x))) = Some (dec x)"
  shows "z_array schema (Some (JArray (map enc xs))) =
           (concat (map (\<lambda>x. fst (schema (Some (enc x)))) xs), Some (map dec xs))"
proof (induction xs)
  case Nil
  show ?case by (simp add: z_array_def z_ok_def)
next
  case (Cons x xs)
  have "z_array schema (Some (JArray (map enc (x # xs)))) =
      z_ap (z_ap (z_ok (#)) (schema (Some (enc x)))) (z_array schema (Some (JArray (map enc xs))))"
    by (simp add: z_array_def)
  also have "\<dots> = (concat (map (\<lambda>x. fst (schema (Some (enc x)))) (x # xs)), Some (map dec (x # xs)))"
    unfolding Cons.IH using assms [of x] by (simp add: z_ap_def z_ok_def)
  finally show ?case .
qed

lemma z_record_map:
  assumes "\<And>v. snd (schema (Some (enc v))) = Some (dec v)"
  shows "z_record schema (Some (JObject (map (\<lambda>kv. (fst kv, enc (snd kv))) kvs))) =
           (concat (map (\<lambda>kv. fst (schema (Some (enc (snd kv))))) kvs),
            Some (map (\<lambda>kv. (fst kv, dec (snd kv))) kvs))"
proof (induction kvs)
  case Nil
  show ?case by (simp add: z_record_def z_ok_def)
next
  case (Cons kv kvs)
  let ?enc = "\<lambda>kv. (fst kv, enc (snd kv))"
  have "z_record schema (Some (JObject (map ?enc (kv # kvs)))) =
      z_ap (z_ap (z_ok (\<lambda>v. (#) (fst kv, v))) (schema (Some (enc (snd kv)))))
        (z_record schema (Some (JObject (map ?enc kvs))))"
    by (simp add: z_record_def)
  also have "\<dots> = (concat (map (\<lambda>kv. fst (schema (Some (enc (snd kv))))) (kv # kvs)),
            Some (map (\<lambda>kv. (fst kv, dec (snd kv))) (kv # kvs)))"
    unfolding Cons.IH using assms [of "snd kv"] by (simp add: z_ap_def z_ok_def)
  finally show ?case .
qed

lemma decks_array:
  "z_array (deckSchema H) (Some (JArray (map deckJson ds))) =
     (concat (map (deckIssues H) ds), Some (map validatedDeck ds))"
  unfolding deckIssues_def
  by (rule z_array_map) (simp add: deckSchema_deckJson)

lemma cards_array:
  "z_array cardSchema (Some (JArray (map cardJson cs))) =
     (concat (map cardIssues cs), Some cs)"
proof -
  have "z_array cardSchema (Some (JArray (map cardJson cs))) =
      (concat (map (\<lambda>x. fst (cardSchema (Some (cardJson x)))) cs), Some (map (\<lambda>c. c) cs))"
    by (rule z_array_map) (simp add: cardSchema_cardJson)
  then show ?thesis
    unfolding cardIssues_def by simp
qed

lemma cards_record:
  "z_record (z_array cardSchema)
     (Some (JObject (map (\<lambda>kv. (fst kv, JArray (map cardJson (snd kv)))) cbd))) =
     (concat (map (\<lambda>kv. concat (map cardIssues (snd kv))) cbd), Some cbd)"
proof -
  have "z_record (z_array cardSchema)
     (Some (JObject (map (\<lambda>kv. (fst kv, JArray (map cardJson (snd kv)))) cbd))) =
     (concat (map (\<lambda>kv. fst (z_array cardSchema (Some (JArray (map cardJson (snd kv)))))) cbd),
      Some (map (\<lambda>kv. (fst kv, snd kv)) cbd))"
    by (rule z_record_map) (simp add: cards_array)
  then show ?thesis
    by (simp add: cards_array)
qed

lemma storeObject_asRaw:
  "storeObject H (Some (asRaw s)) =
     (concat (map (deckIssues H) (decks s)) @
      concat (map (\<lambda>kv. concat (map cardIssues (snd kv))) (cardsByDeck s)),
      Some (validated s))"
  by (simp add: storeObject_def asRaw_def toJson_def field_Cons decks_array cards_record
        z_optional_def settingsSchema_settingsJson z_ap_def z_ok_def mkValidStore_def
        validated_def)

lemma storeSchema_asRaw:
  "storeSchema H (Some (asRaw s)) =
     (concat (map (deckIssues H) (decks s)) @
      concat (map (\<lambda>kv. concat (map cardIssues (snd kv))) (cardsByDeck s)) @
      missingCards (validated s),
      Some (validated s))"
  by (simp add: storeSchema_def storeObject_asRaw)



lemma normalizeDeck_validated: "normalizeDeck H d = Inr d' \<Longrightarrow> validatedDeck d' = d'"
  by (auto simp: normalizeDeck_def validatedDeck_def trimOrUndefined_idem split: sum.splits)

lemma mapE_normalizeDeck_validated:
  "mapE (normalizeDeck H) ds = Inr ds' \<Longrightarrow> map validatedDeck ds' = ds'"
  by (drule mapE_list_all2, induction rule: list_all2_induct)
     (auto dest: normalizeDeck_validated)

lemma toJson_validated_normalized:
  assumes "normalizeStore H d = Inr n"
  shows "toJson (validated n) = asRaw n"
proof -
  from assms have "map validatedDeck (decks n) = decks n"
    by (auto simp: normalizeStore_def split: sum.splits dest: mapE_normalizeDeck_validated)
  then show ?thesis by (simp add: validated_def asRaw_def)
qed


lemma reserialize_parses:
  assumes "host_ok H" and "reserialize H x = Inr y"
  shows "Date_parse H y \<noteq> None \<and> y \<noteq> []"
proof -
  from assms(2) obtain t where "Date_parse H x = Some t" "y = toISOString H t"
    by (auto simp: reserialize_def split: option.splits)
  with assms(1) have "Date_parse H y = Some t" by (auto simp: host_ok_def roundTrips_def)
  moreover from assms(1) have "Date_parse H [] = None" by (simp add: host_ok_def)
  ultimately show ?thesis by auto
qed

lemma normalizeDeck_issues:
  assumes "host_ok H" and "normalizeDeck H d = Inr d'" and "d_id d \<noteq> []" and "trim (title d) \<noteq> []"
  shows "deckIssues H d' = []"
proof -
  from assms(2) obtain c u where c: "reserialize H (createdAt d) = Inr c"
    and u: "reserialize H (updatedAt d) = Inr u"
    and d': "d' = d\<lparr>title := trim (title d), description := trimOrUndefined (description d),
                    createdAt := c, updatedAt := u\<rparr>"
    by (auto simp: normalizeDeck_def split: sum.splits)
  from reserialize_parses [OF assms(1) c] reserialize_parses [OF assms(1) u] assms(3,4)
  show ?thesis
    by (simp add: deckIssues_def deckSchema_deckJson d')
qed

lemma normalizeCard_issues:
  "c_id c \<noteq> [] \<Longrightarrow> trim (front c) \<noteq> [] \<Longrightarrow> trim (back' c) \<noteq> [] \<Longrightarrow>
     cardIssues (normalizeCard c) = []"
  by (simp add: cardIssues_def cardSchema_cardJson normalizeCard_def)

lemma concat_map_Nil: "(\<And>x. x \<in> set xs \<Longrightarrow> f x = []) \<Longrightarrow> concat (map f xs) = []"
  by (induction xs) auto

lemma distinct_builtCards: "distinct (map fst (builtCards old ds))"
proof -
  have "distinct (map fst acc) \<Longrightarrow>
      distinct (map fst (fold (\<lambda>deck acc. AList.update (d_id deck)
        (map normalizeCard (ownCards old (d_id deck))) acc) ds acc))" for acc
    by (induction ds arbitrary: acc) (simp_all add: distinct_update)
  then show ?thesis by (simp add: builtCards_def)
qed

lemma builtCards_entry:
  assumes "kv \<in> set (builtCards old ds)"
  shows "fst kv \<in> d_id ` set ds \<and> snd kv = map normalizeCard (ownCards old (fst kv))"
proof -
  from assms have "map_of (builtCards old ds) (fst kv) = Some (snd kv)"
    by (simp add: map_of_eq_Some_iff [OF distinct_builtCards])
  then show ?thesis
    by (auto simp: map_of_builtCards split: if_splits)
qed

lemma list_all2_pick_right:
  "list_all2 P xs ys \<Longrightarrow> y \<in> set ys \<Longrightarrow> \<exists>x. x \<in> set xs \<and> P x y"
  by (induction rule: list_all2_induct) auto

lemma normalized_no_issues:
  assumes ok: "host_ok H" and n: "normalizeStore H s = Inr n" and st: "draftStorable s"
  shows "fst (storeSchema H (Some (asRaw n))) = []"
proof -
  from n obtain ds where ds: "mapE (normalizeDeck H) (decks s) = Inr ds"
    and decks: "decks n = ds" and cbd: "cardsByDeck n = builtCards (cardsByDeck s) ds"
    by (auto simp: normalizeStore_Inr)
  have pairs: "list_all2 (\<lambda>x y. normalizeDeck H x = Inr y) (decks s) ds"
    using ds by (rule mapE_list_all2)
  have a: "deckIssues H d' = []" if "d' \<in> set ds" for d'
  proof -
    from list_all2_pick_right [OF pairs that]
    obtain d where "d \<in> set (decks s)" "normalizeDeck H d = Inr d'"
      by blast
    with st ok show ?thesis
      by (auto simp: draftStorable_def list_all_iff intro: normalizeDeck_issues)
  qed
  have ids: "d_id ` set ds = d_id ` set (decks s)"
    using mapE_normalizeDeck_ids [OF ds] by (metis set_map)
  have b: "concat (map cardIssues (snd kv)) = []" if "kv \<in> set (builtCards (cardsByDeck s) ds)" for kv
  proof -
    from builtCards_entry [OF that] ids
    obtain d where d: "d \<in> set (decks s)" "fst kv = d_id d"
      and v: "snd kv = map normalizeCard (ownCards (cardsByDeck s) (d_id d))"
      by auto
    from st d have "list_all (\<lambda>c. c_id c \<noteq> [] \<and> trim (front c) \<noteq> [] \<and> trim (back' c) \<noteq> [])
        (ownCards (cardsByDeck s) (d_id d))"
      by (auto simp: draftStorable_def list_all_iff)
    then show ?thesis
      unfolding v by (auto simp: list_all_iff intro!: concat_map_Nil normalizeCard_issues)
  qed
  have c: "missingCards (validated n) = []"
    by (auto simp: missingCards_def validated_def decks cbd map_of_builtCards filter_empty_conv
        validatedDeck_def)
  show ?thesis
    unfolding storeSchema_asRaw decks cbd
    by (simp add: c [unfolded decks cbd] concat_map_Nil a b)
qed

lemma persist_normalized_ok:
  assumes "host_ok H" and "normalizeStore H s = Inr n" and "draftStorable s"
  shows "persist H n (Available x) = Inr (Available (Some (Parsed (asRaw n))))"
proof -
  have "storeSchema H (Some (asRaw n)) = ([], Some (validated n))"
    using normalized_no_issues [OF assms] by (simp add: storeSchema_asRaw)
  then show ?thesis
    by (simp add: persist_def z_parse_def toJson_validated_normalized [OF assms(2)])
qed

section \<open>Deleting a deck\<close>









subsection \<open>Deleting the remembered deck\<close>




section \<open>Hydration\<close>

lemma sample_texts_nonblank:
  "list_all (\<lambda>c. trim (front c) \<noteq> [] \<and> trim (back' c) \<noteq> [])
     (sampleCards1 (\<lambda>i. []) @ sampleCards2 (\<lambda>i. []))"
  by code_simp

lemmas sample_text_facts =
  sample_texts_nonblank [unfolded sampleCards1_def sampleCards2_def, simplified]

lemma sample_titles:
  "trim (js ''Mindful Moments'') = js ''Mindful Moments''"
  "trim (js ''Bible Verses'') = js ''Bible Verses''"
  by code_simp+

lemma sample_cards_storable:
  assumes "\<forall>i<15. gen i \<noteq> []"
  shows "list_all (\<lambda>c. c_id c \<noteq> [] \<and> trim (front c) \<noteq> [] \<and> trim (back' c) \<noteq> [])
           (sampleCards1 gen)"
    and "list_all (\<lambda>c. c_id c \<noteq> [] \<and> trim (front c) \<noteq> [] \<and> trim (back' c) \<noteq> [])
           (sampleCards2 gen)"
  using assms by (simp_all add: sampleCards1_def sampleCards2_def sample_text_facts)

lemma sample_storable:
  assumes "\<forall>i<15. gen i \<noteq> []"
  shows "draftStorable (createSampleStore now gen)"
proof -
  from assms have "gen 0 \<noteq> []" "gen 1 \<noteq> []" by simp_all
  then show ?thesis
    using sample_cards_storable [OF assms]
    by (simp add: draftStorable_def createSampleStore_def Let_def ownCards_def update_conv'
        sample_titles js_Nil_iff)
qed

lemma sample_normalizes:
  assumes "Date_parse H now \<noteq> None"
  shows "\<exists>n. normalizeStore H (createSampleStore now gen) = Inr n"
  using assms
  by (auto simp: normalizeStore_def createSampleStore_def normalizeDeck_def reserialize_def
      Let_def rebuildCards_def cardsOf_def update_conv')

text \<open>
  C10. With a working host (dates round-trip, the clock's timestamp parses, the
  fifteen generated ids are not empty), hydration from a stored document that parses
  and validates but has no deck does not return that store: it returns the normalized
  sample store, whose two decks are "Mindful Moments" and "Bible Verses", and
  overwrites the stored document with it.
\<close>

theorem hydrate_empty_store_reseeds:
  assumes ok: "host_ok H" and now: "Date_parse H now \<noteq> None" and ids: "\<forall>i<15. gen i \<noteq> []"
      and valid: "z_parse (storeSchema H (Some j)) = Inr parsed" and empty: "v_decks parsed = []"
  shows "\<exists>sample.
           normalizeStore H (createSampleStore now gen) = Inr sample \<and>
           hydrateFromStorage H now gen (Available (Some (Parsed j))) =
             (Inr sample, Available (Some (Parsed (asRaw sample)))) \<and>
           map title (decks sample) = [js ''Mindful Moments'', js ''Bible Verses'']"
proof -
  from sample_normalizes [OF now] obtain n
    where n: "normalizeStore H (createSampleStore now gen) = Inr n" by blast
  have "tryLoad H (Parsed j) (Available (Some (Parsed j))) = Inl EmptyStore"
    by (simp add: tryLoad_def valid empty)
  moreover have "persist H n (Available (Some (Parsed j))) =
      Inr (Available (Some (Parsed (asRaw n))))"
    using ok n sample_storable [OF ids] by (rule persist_normalized_ok)
  ultimately have h: "hydrateFromStorage H now gen (Available (Some (Parsed j))) =
      (Inr n, Available (Some (Parsed (asRaw n))))"
    by (simp add: hydrateFromStorage_def seed_def n)
  have t: "map title (decks n) = [js ''Mindful Moments'', js ''Bible Verses'']"
    using normalizeStore_titles [OF n]
    by (simp add: createSampleStore_def Let_def sample_titles)
  from n h t show ?thesis
    by (intro exI [of _ n] conjI)
qed

subsection \<open>A stored document without decks\<close>

lemma exampleIds_nonempty: "\<forall>i<15. exampleIds i \<noteq> []"
  by (simp add: exampleIds_def)

lemma now_parses: "Date_parse exampleHost nowExample \<noteq> None"
  by code_simp

lemma emptyDocument_valid:
  "z_parse (storeSchema exampleHost (Some emptyDocument)) =
     Inr \<lparr>v_decks = [], v_cardsByDeck = [], v_settings = None\<rparr>"
  by code_simp

theorem hydrate_empty_store_reseeds_witness:
  "host_ok exampleHost \<and> Date_parse exampleHost nowExample \<noteq> None \<and>
   z_parse (storeSchema exampleHost (Some emptyDocument)) =
     Inr \<lparr>v_decks = [], v_cardsByDeck = [], v_settings = None\<rparr> \<and>
   (\<exists>sample.
      normalizeStore exampleHost (createSampleStore nowExample exampleIds) = Inr sample \<and>
      hydrateFromStorage exampleHost nowExample exampleIds (Available (Some (Parsed emptyDocument))) =
        (Inr sample, Available (Some (Parsed (asRaw sample)))) \<and>
      map title (decks sample) = [js ''Mindful Moments'', js ''Bible Verses''])"
  using hydrate_empty_store_reseeds [OF exampleHost_ok now_parses exampleIds_nonempty
      emptyDocument_valid] emptyDocument_valid exampleHost_ok now_parses
  by simp

end
